theory Spec2Isabelle
  imports Complex_Main "HOL-Library.Multiset"
begin

chapter \<open>The model\<close>

section \<open>Numbers, records and dictionaries of the TypeScript source\<close>

text \<open>
  A TypeScript \<open>number\<close> is modelled as a real: the arithmetic of the rebalancing
  engine is read exactly, and the not-a-number and infinite values of IEEE doubles are
  outside the model. A \<open>Record<string, number>\<close> is an association list in insertion
  order with pairwise different keys, which is the order \<open>Object.entries\<close> walks for
  the symbol and chain names used here.
\<close>

type_synonym dict = "(string \<times> real) list"

text \<open>\<open>obj[key] || 0\<close>: a missing entry and a stored zero both read as 0.\<close>

definition getOr0 :: "dict \<Rightarrow> string \<Rightarrow> real" where
  "getOr0 obj k = (case map_of obj k of None \<Rightarrow> 0 | Some v \<Rightarrow> v)"

text \<open>\<open>obj[key] = v\<close>: an existing key keeps its position, a new key goes last.\<close>

fun setKey :: "dict \<Rightarrow> string \<Rightarrow> real \<Rightarrow> dict" where
  "setKey [] k v = [(k, v)]"
| "setKey ((k', v') # obj) k v =
     (if k' = k then (k, v) # obj else (k', v') # setKey obj k v)"

text \<open>
  The records of the trading tools (tools/recall-trading). Several of them share field
  names; a field that a later record declares again is written with its record's name,
  as in \<open>TradeContext.amount\<close>.
\<close>

text \<open>The body of the request to \<open>/api/trade/execute\<close>.\<close>

record TradePayload =
  fromToken :: string
  toToken :: string
  amount :: real
  reason :: string
  slippageTolerance :: string
  fromChain :: string
  fromSpecificChain :: string
  toChain :: string
  toSpecificChain :: string

text \<open>The context of \<open>executeTradeByAddress\<close>.\<close>

record AddressTradeContext =
  fromTokenAddress :: string
  toTokenAddress :: string
  amount :: real
  reason :: string
  slippageTolerance :: string
  fromChain :: string
  fromSpecificChain :: string
  toChain :: string
  toSpecificChain :: string

text \<open>The context of \<open>executeTrade\<close>; the two chains are optional.\<close>

record TradeContext =
  fromSymbol :: string
  toSymbol :: string
  amount :: real
  reason :: string
  slippageTolerance :: string
  fromSpecificChain :: "string option"
  toSpecificChain :: "string option"

record TokenInfo =
  address :: string
  chain :: string
  specificChain :: string
  symbol :: string

text \<open>
  What a trading tool returns, as far as the engine reads it: \<open>success\<close> and
  \<open>status\<close>.
\<close>

record ToolResult =
  success :: bool
  status :: string

text \<open>
  A balance as the portfolio provider reports it (\<open>BalanceEntry\<close>); the fields the
  engine never reads (\<open>id\<close>, \<open>agentId\<close>, the time stamps) are left out.
\<close>

record BalanceEntry =
  tokenAddress :: string
  amount :: real
  specificChain :: string
  symbol :: string
  chain :: string

datatype action = Buy | Sell

record TradeParams =
  action :: action
  symbol :: string
  currentAmount :: real
  targetAmount :: real
  differenceAmount :: real
  differenceValueUSD :: real
  priority :: real
  preferredChain :: string

record SubTradeParams = TradeParams +
  subTradeIndex :: int
  totalSubTrades :: int

section \<open>Trade splitter (workflows/recall-portfolio-rebalancing/utils.ts)\<close>

definition MAX_TRADE_SIZE_PERCENT :: real where
  "MAX_TRADE_SIZE_PERCENT = 0.25"

text \<open>The object spread \<open>{...trade, subTradeIndex: i, totalSubTrades: n}\<close>.\<close>

definition withSubTrade :: "TradeParams \<Rightarrow> int \<Rightarrow> int \<Rightarrow> SubTradeParams" where
  "withSubTrade trade i n =
     TradeParams.extend trade \<lparr>subTradeIndex = i, totalSubTrades = n\<rparr>"

definition splitTradeIntoSubTrades :: "TradeParams \<Rightarrow> real \<Rightarrow> real \<Rightarrow> SubTradeParams list" where
  "splitTradeIntoSubTrades trade totalPortfolioValueUSD maxTradePercent =
     (if totalPortfolioValueUSD = 0 \<or> totalPortfolioValueUSD \<le> 0 \<or>
         maxTradePercent = 0 \<or> maxTradePercent \<le> 0
      then [withSubTrade trade 1 1]
      else
        let maxTradeValueUSD = totalPortfolioValueUSD * maxTradePercent in
        if maxTradeValueUSD = 0 \<or> maxTradeValueUSD \<le> 0 \<or>
           differenceValueUSD trade = 0 \<or> differenceValueUSD trade \<le> 0
        then [withSubTrade trade 1 1]
        else if differenceValueUSD trade \<le> maxTradeValueUSD
        then [withSubTrade trade 1 1]
        else
          let numberOfSubTrades = max 1 \<lceil>differenceValueUSD trade / maxTradeValueUSD\<rceil>;
              subTradeValueUSD = differenceValueUSD trade / of_int numberOfSubTrades;
              subTradeAmount = differenceAmount trade / of_int numberOfSubTrades
          in map (\<lambda>i. (withSubTrade trade (int i + 1) numberOfSubTrades)
                         \<lparr>differenceAmount := subTradeAmount,
                          differenceValueUSD := subTradeValueUSD\<rparr>)
                 [0..<nat numberOfSubTrades])"

section \<open>Allocation analyzer (steps/analyze-allocation-step.ts)\<close>

text \<open>
  What can go wrong in the arithmetic of the analyzer: reading index 0 of an undefined
  table entry raises a \<open>TypeError\<close>; a division by zero does not raise in JavaScript
  but leaves the finite numbers, which the model reports as \<open>NonFinite\<close>.
\<close>

datatype js_error = TypeError | NonFinite

definition divide_checked :: "real \<Rightarrow> real \<Rightarrow> js_error + real" where
  "divide_checked a b = (if b = 0 then Inl NonFinite else Inr (a / b))"

record AllocationAnalysis =
  totalValueUSD :: real
  currentAllocation :: dict
  targetAllocation :: dict
  allocationDrift :: dict
  needsRebalancing :: bool
  rebalancingPlan :: "TradeParams list"

record Config =
  targetAllocation :: dict
  consolidateToChain :: "string option"
  rebalanceThreshold :: real
  minTradeValueUSD :: real
  maxSlippage :: string
  forceRebalance :: bool
  skipConsolidation :: bool

definition CHAIN_PREFERENCES :: "(string \<times> string list) list" where
  "CHAIN_PREFERENCES =
     [(''USDC'', [''eth'', ''arbitrum'', ''polygon'', ''base'', ''optimism'', ''svm'']),
      (''WETH'', [''eth'', ''arbitrum'', ''optimism'', ''polygon'', ''base'']),
      (''USDT'', [''eth'', ''arbitrum'', ''polygon'', ''optimism'', ''base'', ''svm'']),
      (''SOL'', [''svm''])]"

text \<open>\<open>balance.symbol === "USDbC" ? "USDC" : balance.symbol\<close>\<close>

definition normalizedSymbol :: "string \<Rightarrow> string" where
  "normalizedSymbol s = (if s = ''USDbC'' then ''USDC'' else s)"

text \<open>The first loop, amounts grouped by normalized symbol: its body and the loop.\<close>

definition groupStep :: "dict \<Rightarrow> BalanceEntry \<Rightarrow> dict" where
  "groupStep symbolTotals balance =
     setKey symbolTotals (normalizedSymbol (BalanceEntry.symbol balance))
       (getOr0 symbolTotals (normalizedSymbol (BalanceEntry.symbol balance))
        + amount balance)"

definition groupBalances :: "BalanceEntry list \<Rightarrow> dict" where
  "groupBalances balances = foldl groupStep [] balances"

text \<open>The second loop: the total value and the amount held of every symbol.\<close>

definition valueLoop :: "dict \<Rightarrow> dict \<Rightarrow> real \<times> dict" where
  "valueLoop prices symbolTotals =
     foldl (\<lambda>(total_usd, current) (tok, amt).
              (total_usd + amt * getOr0 prices tok, setKey current tok amt))
           (0, []) symbolTotals"

text \<open>The current fraction of every target symbol.\<close>

fun percentLoop :: "dict \<Rightarrow> dict \<Rightarrow> real \<Rightarrow> (string \<times> real) list \<Rightarrow> dict \<Rightarrow> js_error + dict" where
  "percentLoop current prices total_usd [] percents = Inr percents"
| "percentLoop current prices total_usd ((tok, w) # rest) percents =
     (let amt = getOr0 current tok;
          price = getOr0 prices tok;
          valueUSD = amt * price
      in case (if total_usd > 0 then divide_checked valueUSD total_usd else Inr 0) of
           Inl e \<Rightarrow> Inl e
         | Inr p \<Rightarrow> percentLoop current prices total_usd rest (setKey percents tok p))"

text \<open>The drift of every target symbol and the largest drift.\<close>

definition driftLoop :: "dict \<Rightarrow> (string \<times> real) list \<Rightarrow> dict \<times> real" where
  "driftLoop percents targets =
     foldl (\<lambda>(drifts, maxDrift) (tok, targetPercent).
              (let drift = \<bar>getOr0 percents tok - targetPercent\<bar>
               in (setKey drifts tok drift, max maxDrift drift)))
           ([], 0) targets"

text \<open>
  \<open>CHAIN_PREFERENCES[symbol][0]\<close>: a symbol that is not a key of the table gives
  \<open>undefined[0]\<close>, a \<open>TypeError\<close>. Every list of the table is non-empty, so the
  branch for an empty list is never taken.
\<close>

definition firstPreference :: "string \<Rightarrow> js_error + string" where
  "firstPreference tok =
     (case map_of CHAIN_PREFERENCES tok of
        None \<Rightarrow> Inl TypeError
      | Some [] \<Rightarrow> Inl TypeError
      | Some (c # cs) \<Rightarrow> Inr c)"

text \<open>
  \<open>config.consolidateToChain || d\<close>: the left operand counts when it is defined and
  not the empty string, and then the right operand is not evaluated.
\<close>

definition truthy :: "string option \<Rightarrow> bool" where
  "truthy c = (case c of None \<Rightarrow> False | Some s \<Rightarrow> s \<noteq> [])"

definition orElse :: "string option \<Rightarrow> string \<Rightarrow> string" where
  "orElse c d = (if truthy c then the c else d)"

definition preferredChainOf :: "Config \<Rightarrow> string \<Rightarrow> js_error + string" where
  "preferredChainOf config tok =
     (if truthy (consolidateToChain config) then Inr (the (consolidateToChain config))
      else firstPreference tok)"

text \<open>
  The body of the loop over the target allocation, for one entry: the trade it pushes
  onto the plan, if the difference is significant.
\<close>

definition targetEntry ::
  "Config \<Rightarrow> dict \<Rightarrow> dict \<Rightarrow> real \<Rightarrow> dict \<Rightarrow> string \<times> real \<Rightarrow> js_error + TradeParams option" where
  "targetEntry config current prices total_usd drifts entry =
     (let tok = fst entry;
          targetPercent = snd entry;
          curAmount = getOr0 current tok;
          price = getOr0 prices tok;
          targetValueUSD = total_usd * targetPercent
      in case (if price > 0 then divide_checked targetValueUSD price else Inr 0) of
           Inl e \<Rightarrow> Inl e
         | Inr tgtAmount \<Rightarrow>
             (let diffAmount = tgtAmount - curAmount;
                  diffValueUSD = \<bar>diffAmount * price\<bar>
              in if diffValueUSD \<ge> minTradeValueUSD config
                 then (case preferredChainOf config tok of
                         Inl e \<Rightarrow> Inl e
                       | Inr prefChain \<Rightarrow>
                           Inr (Some
                              \<lparr>action = (if diffAmount > 0 then Buy else Sell),
                               symbol = tok,
                               currentAmount = curAmount,
                               targetAmount = tgtAmount,
                               differenceAmount = \<bar>diffAmount\<bar>,
                               differenceValueUSD = diffValueUSD,
                               priority = getOr0 drifts tok * 100,
                               preferredChain = prefChain\<rparr>))
                 else Inr None))"

text \<open>The plan entries of the target symbols, in the order of the target allocation.\<close>

fun targetLoop ::
  "Config \<Rightarrow> dict \<Rightarrow> dict \<Rightarrow> real \<Rightarrow> dict \<Rightarrow> (string \<times> real) list \<Rightarrow> TradeParams list
   \<Rightarrow> js_error + TradeParams list" where
  "targetLoop config current prices total_usd drifts [] plan = Inr plan"
| "targetLoop config current prices total_usd drifts (entry # rest) plan =
     (case targetEntry config current prices total_usd drifts entry of
        Inl e \<Rightarrow> Inl e
      | Inr None \<Rightarrow> targetLoop config current prices total_usd drifts rest plan
      | Inr (Some t) \<Rightarrow> targetLoop config current prices total_usd drifts rest (plan @ [t]))"

text \<open>
  The body of the loop over the held symbols, for one entry: the forced sell of a
  symbol whose target weight is zero or missing.
\<close>

definition liquidationEntry :: "Config \<Rightarrow> dict \<Rightarrow> string \<times> real \<Rightarrow> TradeParams option" where
  "liquidationEntry config prices entry =
     (let tok = fst entry;
          amt = snd entry;
          targetPercent = getOr0 (Config.targetAllocation config) tok;
          price = getOr0 prices tok;
          currentValueUSD = amt * price
      in if targetPercent = 0 \<and> currentValueUSD \<ge> minTradeValueUSD config
         then Some \<lparr>action = Sell,
                    symbol = tok,
                    currentAmount = amt,
                    targetAmount = 0,
                    differenceAmount = amt,
                    differenceValueUSD = currentValueUSD,
                    priority = 50,
                    preferredChain = orElse (consolidateToChain config) ''eth''\<rparr>
         else None)"

definition liquidationLoop :: "Config \<Rightarrow> dict \<Rightarrow> dict \<Rightarrow> TradeParams list \<Rightarrow> TradeParams list" where
  "liquidationLoop config prices symbolTotals plan0 =
     foldl (\<lambda>plan entry.
              (case liquidationEntry config prices entry of
                 None \<Rightarrow> plan
               | Some t \<Rightarrow> plan @ [t]))
           plan0 symbolTotals"

text \<open>
  \<open>rebalancingPlan.sort((a, b) => b.priority - a.priority)\<close>: the sort of an array is
  stable, and so is \<open>sort_key\<close>; the key is the negated priority.
\<close>

definition sortByPriority :: "TradeParams list \<Rightarrow> TradeParams list" where
  "sortByPriority plan = sort_key (\<lambda>t. - priority t) plan"

definition analyzeAllocationStep ::
  "BalanceEntry list \<Rightarrow> dict \<Rightarrow> Config \<Rightarrow> js_error + AllocationAnalysis" where
  "analyzeAllocationStep balances prices config =
     (let symbolTotals = groupBalances balances;
          total_usd = fst (valueLoop prices symbolTotals);
          current = snd (valueLoop prices symbolTotals)
      in case percentLoop current prices total_usd (Config.targetAllocation config) [] of
           Inl e \<Rightarrow> Inl e
         | Inr percents \<Rightarrow>
             (let drifts = fst (driftLoop percents (Config.targetAllocation config));
                  maxDrift = snd (driftLoop percents (Config.targetAllocation config));
                  needs = (forceRebalance config \<or> maxDrift > rebalanceThreshold config)
              in case (if needs
                       then (case targetLoop config current prices total_usd drifts
                                    (Config.targetAllocation config) [] of
                               Inl e \<Rightarrow> Inl e
                             | Inr plan \<Rightarrow>
                                 Inr (sortByPriority
                                        (liquidationLoop config prices symbolTotals plan)))
                       else Inr []) of
                   Inl e \<Rightarrow> Inl e
                 | Inr plan \<Rightarrow>
                     Inr \<lparr>totalValueUSD = total_usd,
                          currentAllocation = percents,
                          targetAllocation = Config.targetAllocation config,
                          allocationDrift = drifts,
                          needsRebalancing = needs,
                          rebalancingPlan = plan\<rparr>))"


section \<open>Token registry (tools/recall-trading/utils.ts, constants.ts)\<close>

definition SPESIFIC_CHAIN_TOKENS :: "(string \<times> (string \<times> string) list) list" where
  "SPESIFIC_CHAIN_TOKENS =
     [(''eth'',
        [(''eth'', ''0xC02aaA39b223FE8D0A0e5C4F27eAD9083C756Cc2''),
         (''usdc'', ''0xA0b86991c6218b36c1d19D4a2e9Eb0cE3606eB48''),
         (''usdt'', ''0xdAC17F958D2ee523a2206206994597C13D831ec7'')]),
      (''polygon'',
        [(''eth'', ''0x7ceB23fD6bC0adD59E62ac25578270cFf1b9f619''),
         (''usdc'', ''0x2791Bca1f2de4661ED88A30C99A7a9449Aa84174''),
         (''usdt'', ''0xc2132D05D31c914a87C6611C10748AEb04B58e8F'')]),
      (''base'',
        [(''eth'', ''0x4200000000000000000000000000000000000006''),
         (''usdc'', ''0xd9aAEc86B65D86f6A7B5B1b0c42FFA531710b6CA''),
         (''usdt'', ''0x50c5725949A6F0c72E6C4a641F24049A917DB0Cb'')]),
      (''svm'',
        [(''sol'', ''So11111111111111111111111111111111111111112''),
         (''usdc'', ''EPjFWdd5AufqSSqeM2qN1xzybapC8G4wEGGkZwyTDt1v''),
         (''usdt'', ''Es9vMFrzaCERmJfrF4H2FYD4KCoNkY11McCe8BenwNYB'')]),
      (''arbitrum'',
        [(''eth'', ''0x82af49447d8a07e3bd95bd0d56f35241523fbab1''),
         (''usdc'', ''0xaf88d065e77c8cc2239327c5edb3a432268e5831''),
         (''usdt'', ''0xfd086bc7cd5c481dcc9c85ebe478a1c0b69fcbb9'')]),
      (''optimism'',
        [(''eth'', ''0x4200000000000000000000000000000000000006''),
         (''usdc'', ''0x7f5c764cbc14f9669b88837ca1490cca17c31607''),
         (''usdt'', ''0x94b008aa00579c1307b0ef2c499ad98a8ce58e58'')])]"

definition CHAIN_TYPE_MAP :: "(string \<times> string) list" where
  "CHAIN_TYPE_MAP =
     [(''eth'', ''evm''), (''polygon'', ''evm''), (''base'', ''evm''),
      (''arbitrum'', ''evm''), (''optimism'', ''evm''), (''svm'', ''svm'')]"

definition DEFAULT_CHAIN_FOR_SYMBOL :: "(string \<times> string) list" where
  "DEFAULT_CHAIN_FOR_SYMBOL =
     [(''WETH'', ''eth''), (''USDC'', ''eth''), (''USDT'', ''eth''), (''SOL'', ''svm'')]"

definition SUPPORTED_TOKENS :: "string list" where
  "SUPPORTED_TOKENS = [''USDC'', ''WETH'', ''USDT'', ''SOL'']"

definition SYMBOL_VARIANTS :: "(string \<times> string) list" where
  "SYMBOL_VARIANTS =
     [(''USDC'', ''USDC''), (''USDbC'', ''USDC''), (''WETH'', ''WETH''), (''ETH'', ''WETH''),
      (''USDT'', ''USDT''), (''SOL'', ''SOL'')]"

text \<open>
  \<open>toLowerCase\<close> on the characters of symbols and addresses, which are ASCII: the
  letters A to Z move to a to z, every other character stays.
\<close>

definition lowerChar :: "char \<Rightarrow> char" where
  "lowerChar c =
     (case map_of (zip ''ABCDEFGHIJKLMNOPQRSTUVWXYZ'' ''abcdefghijklmnopqrstuvwxyz'') c of
        None \<Rightarrow> c
      | Some l \<Rightarrow> l)"

definition toLowerCase :: "string \<Rightarrow> string" where
  "toLowerCase s = map lowerChar s"

datatype token_error = ChainNotSupported | TokenNotSupported | AddressNotFound

text \<open>
  \<open>getTokenInfo\<close>. The token key is the lower-case symbol without its first
  \<open>w\<close>. Every chain of the token table has a chain type, and the table has an
  address for SOL, so the defaults of those two lookups are never used.
\<close>

definition getTokenInfo :: "string \<Rightarrow> string option \<Rightarrow> token_error + TokenInfo" where
  "getTokenInfo tok chainOpt =
     (if tok = ''SOL''
      then (case map_of SPESIFIC_CHAIN_TOKENS ''svm'' of
              None \<Rightarrow> Inl ChainNotSupported
            | Some chainTokens \<Rightarrow>
                (case map_of chainTokens ''sol'' of
                   None \<Rightarrow> Inl AddressNotFound
                 | Some a \<Rightarrow>
                     Inr \<lparr>address = a, TokenInfo.chain = ''svm'',
                          TokenInfo.specificChain = orElse chainOpt ''svm'',
                          TokenInfo.symbol = ''SOL''\<rparr>))
      else
        (let defaultChain = (case map_of DEFAULT_CHAIN_FOR_SYMBOL tok of
                               None \<Rightarrow> ''eth'' | Some c \<Rightarrow> c);
             targetChain = orElse chainOpt defaultChain;
             tokenKey = remove1 (CHR ''w'') (toLowerCase tok)
         in case map_of SPESIFIC_CHAIN_TOKENS targetChain of
              None \<Rightarrow> Inl ChainNotSupported
            | Some chainTokens \<Rightarrow>
                if (if targetChain = ''svm''
                    then tokenKey = ''usdc'' \<or> tokenKey = ''usdt''
                    else tokenKey = ''eth'' \<or> tokenKey = ''usdc'' \<or> tokenKey = ''usdt'')
                then (case map_of chainTokens tokenKey of
                        None \<Rightarrow> Inl AddressNotFound
                      | Some a \<Rightarrow>
                          if a = [] then Inl AddressNotFound
                          else Inr \<lparr>address = a,
                                    TokenInfo.chain = (case map_of CHAIN_TYPE_MAP targetChain of
                                               None \<Rightarrow> [] | Some t \<Rightarrow> t),
                                    TokenInfo.specificChain = targetChain,
                                    TokenInfo.symbol = tok\<rparr>)
                else Inl TokenNotSupported))"

text \<open>\<open>findBalanceForToken\<close>: by address and chain first, then by symbol and chain.\<close>

definition findBalanceForToken :: "BalanceEntry list \<Rightarrow> TokenInfo \<Rightarrow> BalanceEntry option" where
  "findBalanceForToken balances tokenInfo =
     (case find (\<lambda>balance.
                   toLowerCase (tokenAddress balance) = toLowerCase (address tokenInfo) \<and>
                   BalanceEntry.specificChain balance = TokenInfo.specificChain tokenInfo)
                balances of
        Some exactMatch \<Rightarrow> Some exactMatch
      | None \<Rightarrow>
          find (\<lambda>balance.
                  (case map_of SYMBOL_VARIANTS (BalanceEntry.symbol balance) of
                     None \<Rightarrow> BalanceEntry.symbol balance | Some v \<Rightarrow> v)
                    = TokenInfo.symbol tokenInfo \<and>
                  BalanceEntry.specificChain balance = TokenInfo.specificChain tokenInfo)
               balances)"

section \<open>Trading tools (tools/recall-trading/trading-tools.ts)\<close>

text \<open>
  The calls that leave the engine, in the order they are made: a read of the balances, a
  trade sent to the exchange, a price request for one token of the portfolio, a fixed
  delay. One \<open>PostTrade\<close> is one \<open>http.post\<close>, whatever the HTTP client retries
  underneath.
\<close>

datatype call =
    GetBalances
  | PostTrade TradePayload
  | GetTokenPrice string string string
  | Delay nat

datatype http_failure = HttpStatus nat | NetworkFailure

text \<open>
  The data of a successful answer of the exchange. The tool spreads it over its own
  result last, so a \<open>success\<close> or \<open>status\<close> field of the answer replaces the
  tool's.
\<close>

record TradeData =
  dataSuccess :: "bool option"
  dataStatus :: "string option"

text \<open>A payload whose two sides are the same token on the same chain.\<close>

definition sameSides :: "TradePayload \<Rightarrow> bool" where
  "sameSides p =
     (fromToken p = toToken p \<and>
      TradePayload.fromSpecificChain p = TradePayload.toSpecificChain p)"

text \<open>The trades sent to the exchange among some calls.\<close>

definition postsOf :: "call list \<Rightarrow> TradePayload list" where
  "postsOf calls = List.map_filter (\<lambda>c. case c of PostTrade p \<Rightarrow> Some p | _ \<Rightarrow> None) calls"

text \<open>
  The outside world: what the balances endpoint and the exchange answer, given the calls
  made so far.
\<close>

record Env =
  balancesResponse :: "call list \<Rightarrow> http_failure + BalanceEntry list"
  tradeResponse :: "call list \<Rightarrow> TradePayload \<Rightarrow> http_failure + TradeData"

definition createErrorResponse :: "string \<Rightarrow> ToolResult" where
  "createErrorResponse st = \<lparr>success = False, status = st\<rparr>"

text \<open>The \<open>catch\<close> block of both tools, for a failed HTTP call.\<close>

definition httpErrorResponse :: "http_failure \<Rightarrow> ToolResult" where
  "httpErrorResponse failure =
     (if failure = HttpStatus 400 then createErrorResponse ''bad_request''
      else if failure = HttpStatus 429 then createErrorResponse ''rate_limited''
      else if failure = HttpStatus 401 then createErrorResponse ''unauthorized''
      else createErrorResponse ''execution_error'')"

definition executedResult :: "TradeData \<Rightarrow> ToolResult" where
  "executedResult tradeData =
     \<lparr>success = (case dataSuccess tradeData of None \<Rightarrow> True | Some b \<Rightarrow> b),
      status = (case dataStatus tradeData of None \<Rightarrow> ''executed'' | Some st \<Rightarrow> st)\<rparr>"

definition executeTradeByAddress ::
  "Env \<Rightarrow> AddressTradeContext \<Rightarrow> call list \<Rightarrow> ToolResult \<times> call list" where
  "executeTradeByAddress env context trace =
     (if toLowerCase (fromTokenAddress context) = toLowerCase (toTokenAddress context) \<and>
         AddressTradeContext.fromSpecificChain context = AddressTradeContext.toSpecificChain context
      then (createErrorResponse ''invalid_trade'', trace)
      else
        (case balancesResponse env trace of
           Inl failure \<Rightarrow> (httpErrorResponse failure, trace @ [GetBalances])
         | Inr balances \<Rightarrow>
             (let selectedBalance =
                    find (\<lambda>balance.
                            toLowerCase (tokenAddress balance) =
                              toLowerCase (fromTokenAddress context) \<and>
                            BalanceEntry.specificChain balance =
                              AddressTradeContext.fromSpecificChain context)
                         balances;
                  availableBalance = (case selectedBalance of
                                        None \<Rightarrow> 0 | Some b \<Rightarrow> BalanceEntry.amount b);
                  sufficientBalance = (availableBalance \<ge> AddressTradeContext.amount context)
              in if \<not> sufficientBalance
                 then (\<lparr>success = False, status = ''insufficient_balance''\<rparr>,
                       trace @ [GetBalances])
                 else
                   (let tradePayload =
                          \<lparr>fromToken = fromTokenAddress context,
                           toToken = toTokenAddress context,
                           TradePayload.amount = AddressTradeContext.amount context,
                           TradePayload.reason = AddressTradeContext.reason context,
                           TradePayload.slippageTolerance =
                             AddressTradeContext.slippageTolerance context,
                           TradePayload.fromChain = AddressTradeContext.fromChain context,
                           TradePayload.fromSpecificChain =
                             AddressTradeContext.fromSpecificChain context,
                           TradePayload.toChain = AddressTradeContext.toChain context,
                           TradePayload.toSpecificChain =
                             AddressTradeContext.toSpecificChain context\<rparr>
                    in case tradeResponse env (trace @ [GetBalances]) tradePayload of
                         Inl failure \<Rightarrow>
                           (httpErrorResponse failure,
                            trace @ [GetBalances, PostTrade tradePayload])
                       | Inr tradeData \<Rightarrow>
                           (executedResult tradeData,
                            trace @ [GetBalances, PostTrade tradePayload])))))"

definition executeTrade :: "Env \<Rightarrow> TradeContext \<Rightarrow> call list \<Rightarrow> ToolResult \<times> call list" where
  "executeTrade env context trace =
     (if fromSymbol context = toSymbol context \<and>
         TradeContext.fromSpecificChain context = TradeContext.toSpecificChain context
      then (createErrorResponse ''invalid_trade'', trace)
      else
        (case getTokenInfo (fromSymbol context) (TradeContext.fromSpecificChain context) of
           Inl e \<Rightarrow> (createErrorResponse ''execution_error'', trace)
         | Inr fromTokenInfo \<Rightarrow>
             (case getTokenInfo (toSymbol context) (TradeContext.toSpecificChain context) of
                Inl e \<Rightarrow> (createErrorResponse ''execution_error'', trace)
              | Inr toTokenInfo \<Rightarrow>
                  (case balancesResponse env trace of
                     Inl failure \<Rightarrow> (httpErrorResponse failure, trace @ [GetBalances])
                   | Inr balances \<Rightarrow>
                       (let selectedBalance = findBalanceForToken balances fromTokenInfo;
                            availableBalance = (case selectedBalance of
                                                  None \<Rightarrow> 0 | Some b \<Rightarrow> BalanceEntry.amount b);
                            sufficientBalance = (availableBalance \<ge> TradeContext.amount context)
                        in if \<not> sufficientBalance
                           then (\<lparr>success = False, status = ''insufficient_balance''\<rparr>,
                                 trace @ [GetBalances])
                           else
                             (let tradePayload =
                                    \<lparr>fromToken = address fromTokenInfo,
                                     toToken = address toTokenInfo,
                                     TradePayload.amount = TradeContext.amount context,
                                     TradePayload.reason = TradeContext.reason context,
                                     TradePayload.slippageTolerance =
                                       TradeContext.slippageTolerance context,
                                     TradePayload.fromChain = TokenInfo.chain fromTokenInfo,
                                     TradePayload.fromSpecificChain =
                                       TokenInfo.specificChain fromTokenInfo,
                                     TradePayload.toChain = TokenInfo.chain toTokenInfo,
                                     TradePayload.toSpecificChain =
                                       TokenInfo.specificChain toTokenInfo\<rparr>
                              in case tradeResponse env (trace @ [GetBalances]) tradePayload of
                                   Inl failure \<Rightarrow>
                                     (httpErrorResponse failure,
                                      trace @ [GetBalances, PostTrade tradePayload])
                                 | Inr tradeData \<Rightarrow>
                                     (executedResult tradeData,
                                      trace @ [GetBalances, PostTrade tradePayload])))))))"

section \<open>Price step and target allocation (steps/fetch-prices-step.ts)\<close>

definition DEFAULT_TARGET_ALLOCATION :: dict where
  "DEFAULT_TARGET_ALLOCATION = [(''USDC'', 0), (''WETH'', 0), (''USDT'', 1), (''SOL'', 0)]"

definition DEFAULT_REBALANCE_THRESHOLD :: real where
  "DEFAULT_REBALANCE_THRESHOLD = 0.001"

definition DEFAULT_MIN_TRADE_VALUE_USD :: real where
  "DEFAULT_MIN_TRADE_VALUE_USD = 0.01"

text \<open>The input of the step; an optional number that was not given is \<open>None\<close>.\<close>

record FetchPricesInput =
  usdcPercent :: "real option"
  wethPercent :: "real option"
  usdtPercent :: "real option"
  solPercent :: "real option"
  inputConsolidateToChain :: "string option"
  slippage :: real
  inputForceRebalance :: bool
  inputSkipConsolidation :: bool

text \<open>
  The answer of the price tool (\<open>PriceDataType\<close>); its fields \<open>success\<close>,
  \<open>prices\<close> and \<open>errors\<close> carry a prefix here.
\<close>

record PriceData =
  pd_success :: bool
  pd_prices :: dict
  pd_errors :: "string list option"

record FetchPricesOutput =
  outPrices :: PriceData
  outConfig :: Config

datatype step_error = AllocationSumNotPositive

text \<open>The one external call of the step: the price tool, with its symbols and chain.\<close>

datatype step_call = GetPrice "string list" string

text \<open>
  \<open>if (inputData.xPercent && inputData.xPercent > 0) rawAllocation.X = inputData.xPercent\<close>:
  a percentage that is missing, zero or negative adds no key.
\<close>

definition addPercent :: "dict \<Rightarrow> string \<Rightarrow> real option \<Rightarrow> dict" where
  "addPercent rawAllocation tok percent =
     (case percent of
        None \<Rightarrow> rawAllocation
      | Some p \<Rightarrow> if p \<noteq> 0 \<and> p > 0 then setKey rawAllocation tok p else rawAllocation)"

definition rawAllocationOf :: "FetchPricesInput \<Rightarrow> dict" where
  "rawAllocationOf inputData =
     addPercent
       (addPercent
          (addPercent
             (addPercent [] ''USDC'' (usdcPercent inputData))
             ''WETH'' (wethPercent inputData))
          ''USDT'' (usdtPercent inputData))
       ''SOL'' (solPercent inputData)"

text \<open>
  The target allocation the step builds before it calls anything: the defaults when the
  raw allocation has no key, an error when its sum is not positive, and the raw
  percentages divided by their sum otherwise.
\<close>

definition normalizedTargetAllocation :: "FetchPricesInput \<Rightarrow> step_error + dict" where
  "normalizedTargetAllocation inputData =
     (let rawAllocation = rawAllocationOf inputData
      in if length rawAllocation = 0 then Inr DEFAULT_TARGET_ALLOCATION
         else
           let totalPercent = foldl (\<lambda>acc v. acc + v) 0 (map snd rawAllocation)
           in if totalPercent \<le> 0 then Inl AllocationSumNotPositive
              else Inr (foldl (\<lambda>normalized (tok, percent).
                                 setKey normalized tok (percent / totalPercent))
                              [] rawAllocation))"

text \<open>
  The step: the allocation, the configuration, then the price fetch. The response of the
  price tool and the printing of a number are parameters.
\<close>

definition fetchPricesStep ::
  "(string list \<Rightarrow> string \<Rightarrow> PriceData) \<Rightarrow> (real \<Rightarrow> string) \<Rightarrow> FetchPricesInput
   \<Rightarrow> step_call list \<times> (step_error + FetchPricesOutput)" where
  "fetchPricesStep getPrice numberToString inputData =
     (case normalizedTargetAllocation inputData of
        Inl e \<Rightarrow> ([], Inl e)
      | Inr allocation \<Rightarrow>
          (let config = \<lparr>targetAllocation = allocation,
                         consolidateToChain = inputConsolidateToChain inputData,
                         rebalanceThreshold = DEFAULT_REBALANCE_THRESHOLD,
                         minTradeValueUSD = DEFAULT_MIN_TRADE_VALUE_USD,
                         maxSlippage = numberToString (slippage inputData),
                         forceRebalance = inputForceRebalance inputData,
                         skipConsolidation = inputSkipConsolidation inputData\<rparr>;
               symbols = [''USDC'', ''WETH'', ''USDT'', ''SOL''];
               result = getPrice symbols ''eth''
           in ([GetPrice symbols ''eth''], Inr \<lparr>outPrices = result, outConfig = config\<rparr>)))"

text \<open>
  The value of an optional percentage for the sum of the percentages of an input: one
  that was not given counts as 0.
\<close>

definition percentOr0 :: "real option \<Rightarrow> real" where
  "percentOr0 p = (case p of None \<Rightarrow> 0 | Some v \<Rightarrow> v)"

text \<open>An input that gives every percentage as 0, and a price tool that answers with fixed prices.\<close>

definition zero_input :: FetchPricesInput where
  "zero_input = \<lparr>usdcPercent = Some 0, wethPercent = Some 0, usdtPercent = Some 0,
     solPercent = Some 0, inputConsolidateToChain = None, slippage = 2,
     inputForceRebalance = False, inputSkipConsolidation = False\<rparr>"

definition fixed_prices :: "string list \<Rightarrow> string \<Rightarrow> PriceData" where
  "fixed_prices symbols chain_name =
     \<lparr>pd_success = True,
      pd_prices = [(''USDC'', 1), (''WETH'', 2000), (''USDT'', 1), (''SOL'', 150)],
      pd_errors = None\<rparr>"

definition print_two :: "real \<Rightarrow> string" where
  "print_two x = ''2''"

section \<open>Execution of one sub-trade (workflows/recall-portfolio-rebalancing/utils.ts)\<close>

text \<open>
  \<open>TradeExecutionResult\<close>: the tool's result, or \<open>null\<close> when no tool was
  called, and the success flag (field \<open>success\<close> of the source).
\<close>

record TradeExecutionResult =
  result :: "ToolResult option"
  tradeSuccess :: bool

definition notExecuted :: TradeExecutionResult where
  "notExecuted = \<lparr>result = None, tradeSuccess = False\<rparr>"

text \<open>The suffix of the reason string for a trade that was split.\<close>

definition subTradeInfo :: "(real \<Rightarrow> string) \<Rightarrow> SubTradeParams \<Rightarrow> string" where
  "subTradeInfo numberToString trade =
     (if totalSubTrades trade > 1
      then '' [Sub-trade '' @ numberToString (of_int (subTradeIndex trade)) @ ''/'' @
           numberToString (of_int (totalSubTrades trade)) @ '']''
      else [])"

text \<open>
  \<open>reduce((max, current) => current.amount > max.amount ? current : max)\<close> from the
  first balance over the others: the first balance of the largest amount.
\<close>

definition largestOf :: "BalanceEntry \<Rightarrow> BalanceEntry list \<Rightarrow> BalanceEntry" where
  "largestOf first others =
     foldl (\<lambda>mx current. if amount current > amount mx then current else mx) first others"

text \<open>
  The primary target token: the entries of positive weight, sorted by descending weight
  (stably), and the first of them if there is one.
\<close>

definition primaryTargetToken :: "dict \<Rightarrow> (string \<times> real) option" where
  "primaryTargetToken allocation =
     (case sort_key (\<lambda>entry. - snd entry) (filter (\<lambda>entry. snd entry > 0) allocation) of
        [] \<Rightarrow> None
      | entry # others \<Rightarrow> Some entry)"

text \<open>
  The sell branch up to its call of \<open>executeTrade\<close>: it returns early without a
  balance of the symbol, it skips a sale of USDC when no target has positive weight, and
  otherwise it builds the context of the call.
\<close>

datatype sell_decision = NoBalanceFound | SkipSameToken | SellWith TradeContext

text \<open>The balances of the symbol to sell; USDbC counts as a balance of USDC.\<close>

definition tokenBalances :: "SubTradeParams \<Rightarrow> BalanceEntry list \<Rightarrow> BalanceEntry list" where
  "tokenBalances trade balances =
     filter (\<lambda>b. BalanceEntry.symbol b = symbol trade \<or>
                   (BalanceEntry.symbol b = ''USDbC'' \<and> symbol trade = ''USDC''))
            balances"

definition sellDecision ::
  "(real \<Rightarrow> string) \<Rightarrow> SubTradeParams \<Rightarrow> BalanceEntry list \<Rightarrow> Config \<Rightarrow> sell_decision" where
  "sellDecision numberToString trade balances config =
     (case tokenBalances trade balances of
        [] \<Rightarrow> NoBalanceFound
      | first # others \<Rightarrow>
          (let bestBalance =
                 (if truthy (consolidateToChain config)
                  then (case find (\<lambda>b. BalanceEntry.specificChain b =
                                          the (consolidateToChain config))
                                  (first # others) of
                          Some b \<Rightarrow> b
                        | None \<Rightarrow> largestOf first others)
                  else largestOf first others);
               tradeAmount = min (differenceAmount trade) (amount bestBalance);
               primary = primaryTargetToken (Config.targetAllocation config)
           in if primary \<noteq> None \<and> symbol trade = ''USDC''
              then SellWith
                     \<lparr>fromSymbol = symbol trade,
                      toSymbol = fst (the primary),
                      TradeContext.amount = tradeAmount,
                      TradeContext.reason =
                        ''Smart rebalancing: reducing '' @ symbol trade @ '' allocation'' @
                        subTradeInfo numberToString trade,
                      TradeContext.slippageTolerance = maxSlippage config,
                      TradeContext.fromSpecificChain =
                        Some (BalanceEntry.specificChain bestBalance),
                      TradeContext.toSpecificChain = Some (preferredChain trade)\<rparr>
              else if symbol trade \<noteq> ''USDC''
              then SellWith
                     \<lparr>fromSymbol = symbol trade,
                      toSymbol = ''USDC'',
                      TradeContext.amount = tradeAmount,
                      TradeContext.reason =
                        ''Smart rebalancing: reducing '' @ symbol trade @ '' allocation'' @
                        subTradeInfo numberToString trade,
                      TradeContext.slippageTolerance = maxSlippage config,
                      TradeContext.fromSpecificChain =
                        Some (BalanceEntry.specificChain bestBalance),
                      TradeContext.toSpecificChain = Some (preferredChain trade)\<rparr>
              else SkipSameToken))"

text \<open>\<open>prices?.prices[symbol] || 1\<close>\<close>

definition priceOr1 :: "PriceData option \<Rightarrow> string \<Rightarrow> real" where
  "priceOr1 priceData tok =
     (case priceData of
        None \<Rightarrow> 1
      | Some pd \<Rightarrow>
          (case map_of (pd_prices pd) tok of
             None \<Rightarrow> 1
           | Some v \<Rightarrow> if v = 0 then 1 else v))"

definition stableValue :: "PriceData option \<Rightarrow> BalanceEntry \<Rightarrow> real" where
  "stableValue priceData b = amount b * priceOr1 priceData (normalizedSymbol (BalanceEntry.symbol b))"

text \<open>
  The buy branch up to its call of a tool: without a stablecoin balance it returns
  early; resolving the token to buy can fail, which the \<open>catch\<close> of
  \<open>executeSingleTrade\<close> turns into the same early return.
\<close>

datatype buy_decision =
    NoStablecoinFound
  | TargetUnresolved
  | BuyWith TradeContext
  | BuyByAddress AddressTradeContext

definition buyDecision ::
  "(real \<Rightarrow> string) \<Rightarrow> SubTradeParams \<Rightarrow> BalanceEntry list \<Rightarrow> Config \<Rightarrow> PriceData option
   \<Rightarrow> buy_decision" where
  "buyDecision numberToString trade balances config priceData =
     (case sort_key (\<lambda>b. - stableValue priceData b)
             (filter (\<lambda>b. BalanceEntry.symbol b \<in> set [''USDC'', ''USDbC'', ''DAI'', ''USDT'']
                           \<and> amount b > 0)
                     balances) of
        [] \<Rightarrow> NoStablecoinFound
      | largest # others \<Rightarrow>
          (let best = (case find (\<lambda>b. stableValue priceData b \<ge> differenceValueUSD trade)
                                 (largest # others) of
                         Some b \<Rightarrow> b
                       | None \<Rightarrow> largest);
               availableValueUSD = stableValue priceData best;
               actualTradeAmount = min (differenceValueUSD trade) availableValueUSD
           in case getTokenInfo (symbol trade) (Some (preferredChain trade)) of
                Inl e \<Rightarrow> TargetUnresolved
              | Inr targetTokenInfo \<Rightarrow>
                  if BalanceEntry.symbol best \<in> set [''USDC'', ''WETH'', ''USDT'', ''SOL''] \<and>
                     BalanceEntry.symbol best \<noteq> ''USDbC''
                  then BuyWith
                         \<lparr>fromSymbol = BalanceEntry.symbol best,
                          toSymbol = symbol trade,
                          TradeContext.amount = actualTradeAmount,
                          TradeContext.reason =
                            ''Smart rebalancing: increasing '' @ symbol trade @
                            '' allocation'' @ subTradeInfo numberToString trade,
                          TradeContext.slippageTolerance = maxSlippage config,
                          TradeContext.fromSpecificChain =
                            Some (BalanceEntry.specificChain best),
                          TradeContext.toSpecificChain = Some (preferredChain trade)\<rparr>
                  else BuyByAddress
                         \<lparr>fromTokenAddress = tokenAddress best,
                          toTokenAddress = address targetTokenInfo,
                          AddressTradeContext.amount = actualTradeAmount,
                          AddressTradeContext.reason =
                            ''Smart rebalancing: increasing '' @ symbol trade @
                            '' allocation'' @ subTradeInfo numberToString trade,
                          AddressTradeContext.slippageTolerance = maxSlippage config,
                          AddressTradeContext.fromChain = BalanceEntry.chain best,
                          AddressTradeContext.fromSpecificChain =
                            BalanceEntry.specificChain best,
                          AddressTradeContext.toChain = TokenInfo.chain targetTokenInfo,
                          AddressTradeContext.toSpecificChain = preferredChain trade\<rparr>))"

text \<open>
  \<open>executeSingleTrade\<close>: the decision of the branch, then the tool. The trade type is
  the action \<open>Sell\<close> or \<open>Buy\<close>; the balances are those of the portfolio passed in.
\<close>

definition executeSingleTrade ::
  "Env \<Rightarrow> (real \<Rightarrow> string) \<Rightarrow> SubTradeParams \<Rightarrow> action \<Rightarrow> BalanceEntry list \<Rightarrow> Config
   \<Rightarrow> PriceData option \<Rightarrow> call list \<Rightarrow> TradeExecutionResult \<times> call list" where
  "executeSingleTrade env numberToString trade tradeType balances config priceData trace =
     (case tradeType of
        Sell \<Rightarrow>
          (case sellDecision numberToString trade balances config of
             NoBalanceFound \<Rightarrow> (notExecuted, trace)
           | SkipSameToken \<Rightarrow> (notExecuted, trace)
           | SellWith context \<Rightarrow>
               (let r = executeTrade env context trace
                in (\<lparr>result = Some (fst r), tradeSuccess = success (fst r)\<rparr>, snd r)))
      | Buy \<Rightarrow>
          (case buyDecision numberToString trade balances config priceData of
             NoStablecoinFound \<Rightarrow> (notExecuted, trace)
           | TargetUnresolved \<Rightarrow> (notExecuted, trace)
           | BuyWith context \<Rightarrow>
               (let r = executeTrade env context trace
                in (\<lparr>result = Some (fst r), tradeSuccess = success (fst r)\<rparr>, snd r))
           | BuyByAddress context \<Rightarrow>
               (let r = executeTradeByAddress env context trace
                in (\<lparr>result = Some (fst r), tradeSuccess = success (fst r)\<rparr>, snd r))))"

section \<open>Rebalancing loop (steps/execute-rebalancing-step.ts)\<close>

definition maxIterations :: nat where
  "maxIterations = 10"

definition convergenceThreshold :: real where
  "convergenceThreshold = 0.005"

definition maxTradesPerIteration :: nat where
  "maxTradesPerIteration = 3"

definition SUB_TRADE_DELAY_MS :: nat where
  "SUB_TRADE_DELAY_MS = 3000"

text \<open>The symbols the loop and the buy branch count as stablecoins.\<close>

definition stablecoinSymbols :: "string list" where
  "stablecoinSymbols = [''USDC'', ''USDbC'', ''DAI'', ''USDT'']"

text \<open>
  \<open>getPortfolio\<close> as the loop calls it (no chain filter, zero balances left out,
  pricing on): one read of the balances and one price request for every balance kept.
  The prices only add fields the engine does not read. A failed read gives no balances.
\<close>

definition getPortfolio :: "Env \<Rightarrow> call list \<Rightarrow> BalanceEntry list \<times> call list" where
  "getPortfolio env trace =
     (case balancesResponse env trace of
        Inl failure \<Rightarrow> ([], trace @ [GetBalances])
      | Inr balances \<Rightarrow>
          (let filteredBalances = filter (\<lambda>b. amount b > 0) balances
           in (filteredBalances,
               trace @ [GetBalances] @
               map (\<lambda>b. GetTokenPrice (tokenAddress b) (BalanceEntry.chain b)
                                      (BalanceEntry.specificChain b))
                   filteredBalances)))"

text \<open>
  What the loop carries from one pass to the next, besides the number of passes: the
  force flag of the configuration, the results gathered, the volume and the calls made.
\<close>

record LoopState =
  forceFlag :: bool
  allRebalancingResults :: "ToolResult list"
  totalVolumeUSD :: real
  calls :: "call list"

datatype loop_exit = Break LoopState | Continue LoopState

text \<open>
  The first computations of a pass, from the balances just read: the total value of all
  holdings, the current fraction of every target symbol, the drifts and the largest
  drift.
\<close>

definition iterationTotalUSD :: "dict \<Rightarrow> BalanceEntry list \<Rightarrow> real" where
  "iterationTotalUSD prices balances =
     foldl (\<lambda>acc entry. acc + snd entry * getOr0 prices (fst entry)) 0
           (groupBalances balances)"

definition iterationPercents :: "Config \<Rightarrow> dict \<Rightarrow> BalanceEntry list \<Rightarrow> dict" where
  "iterationPercents config prices balances =
     foldl (\<lambda>percents entry.
              setKey percents (fst entry)
                (if iterationTotalUSD prices balances > 0
                 then getOr0 (groupBalances balances) (fst entry) * getOr0 prices (fst entry)
                      / iterationTotalUSD prices balances
                 else 0))
           [] (Config.targetAllocation config)"

definition iterationDrift :: "Config \<Rightarrow> dict \<Rightarrow> BalanceEntry list \<Rightarrow> dict \<times> real" where
  "iterationDrift config prices balances =
     driftLoop (iterationPercents config prices balances) (Config.targetAllocation config)"

text \<open>The plan of one pass: the entry of a target symbol, and the forced sell.\<close>

definition iterationTargetEntry ::
  "Config \<Rightarrow> dict \<Rightarrow> BalanceEntry list \<Rightarrow> string \<times> real \<Rightarrow> TradeParams option" where
  "iterationTargetEntry config prices balances entry =
     (let tok = fst entry;
          targetPercent = snd entry;
          curAmount = getOr0 (groupBalances balances) tok;
          price = getOr0 prices tok;
          targetValueUSD = iterationTotalUSD prices balances * targetPercent;
          tgtAmount = (if price > 0 then targetValueUSD / price else 0);
          diffAmount = tgtAmount - curAmount;
          diffValueUSD = \<bar>diffAmount * price\<bar>
      in if diffValueUSD \<ge> minTradeValueUSD config
         then Some \<lparr>action = (if diffAmount > 0 then Buy else Sell),
                    symbol = tok,
                    currentAmount = curAmount,
                    targetAmount = tgtAmount,
                    differenceAmount = \<bar>diffAmount\<bar>,
                    differenceValueUSD = diffValueUSD,
                    priority = getOr0 (fst (iterationDrift config prices balances)) tok * 100,
                    preferredChain = orElse (consolidateToChain config) ''eth''\<rparr>
         else None)"

definition iterationLiquidationEntry ::
  "Config \<Rightarrow> dict \<Rightarrow> string \<times> real \<Rightarrow> TradeParams option" where
  "iterationLiquidationEntry config prices entry =
     (let tok = fst entry;
          amt = snd entry;
          targetPercent = getOr0 (Config.targetAllocation config) tok;
          price = getOr0 prices tok;
          currentValueUSD = amt * price
      in if targetPercent = 0 \<and> currentValueUSD \<ge> minTradeValueUSD config \<and> amt > 0
         then Some \<lparr>action = Sell,
                    symbol = tok,
                    currentAmount = amt,
                    targetAmount = 0,
                    differenceAmount = amt,
                    differenceValueUSD = currentValueUSD,
                    priority = 50,
                    preferredChain = orElse (consolidateToChain config) ''eth''\<rparr>
         else None)"

definition iterationRebalancingPlan ::
  "Config \<Rightarrow> dict \<Rightarrow> BalanceEntry list \<Rightarrow> TradeParams list" where
  "iterationRebalancingPlan config prices balances =
     List.map_filter (iterationTargetEntry config prices balances)
       (Config.targetAllocation config) @
     List.map_filter (iterationLiquidationEntry config prices) (groupBalances balances)"

text \<open>
  The holdings the bootstrap may sell: no target weight, a positive amount, not a
  stablecoin; and the one it sells, the last of the largest USD value.
\<close>

definition currentStablecoins :: "BalanceEntry list \<Rightarrow> BalanceEntry list" where
  "currentStablecoins balances =
     filter (\<lambda>b. BalanceEntry.symbol b \<in> set stablecoinSymbols \<and> amount b > 0) balances"

definition nonTargetTokens :: "Config \<Rightarrow> BalanceEntry list \<Rightarrow> BalanceEntry list" where
  "nonTargetTokens config balances =
     filter (\<lambda>b. getOr0 (Config.targetAllocation config)
                     (normalizedSymbol (BalanceEntry.symbol b)) = 0 \<and>
                   amount b > 0 \<and>
                   BalanceEntry.symbol b \<notin> set stablecoinSymbols)
            balances"

definition holdingValue :: "dict \<Rightarrow> BalanceEntry \<Rightarrow> real" where
  "holdingValue prices b = amount b * getOr0 prices (normalizedSymbol (BalanceEntry.symbol b))"

definition tokenToSellOf :: "dict \<Rightarrow> BalanceEntry list \<Rightarrow> BalanceEntry" where
  "tokenToSellOf prices tokens =
     foldl (\<lambda>mx current. if holdingValue prices mx > holdingValue prices current
                           then mx else current)
           (hd tokens) (tl tokens)"

definition bootstrapContext :: "Config \<Rightarrow> BalanceEntry \<Rightarrow> TradeContext" where
  "bootstrapContext config tokenToSell =
     \<lparr>fromSymbol = BalanceEntry.symbol tokenToSell,
      toSymbol = ''USDC'',
      TradeContext.amount = amount tokenToSell,
      TradeContext.reason =
        ''Converting non-target '' @ BalanceEntry.symbol tokenToSell @
        '' to USDC for rebalancing'',
      TradeContext.slippageTolerance = maxSlippage config,
      TradeContext.fromSpecificChain = Some (BalanceEntry.specificChain tokenToSell),
      TradeContext.toSpecificChain = Some (BalanceEntry.specificChain tokenToSell)\<rparr>"

text \<open>
  The bootstrap sale, for a non-empty list of holdings to choose from: the trade, the
  result kept when it succeeded, the delay. The pass ends there.
\<close>

definition bootstrapSale ::
  "Env \<Rightarrow> Config \<Rightarrow> dict \<Rightarrow> BalanceEntry list \<Rightarrow> LoopState \<Rightarrow> LoopState" where
  "bootstrapSale env config prices balances st =
     (let tokenToSell = tokenToSellOf prices (nonTargetTokens config balances);
          sold = executeTrade env (bootstrapContext config tokenToSell) (calls st);
          sellResult = fst sold
      in if success sellResult
         then st\<lparr>allRebalancingResults := allRebalancingResults st @ [sellResult],
                 totalVolumeUSD :=
                   totalVolumeUSD st +
                   amount tokenToSell * getOr0 prices (BalanceEntry.symbol tokenToSell),
                 calls := snd sold @ [Delay 3000]\<rparr>
         else st\<lparr>calls := snd sold @ [Delay 3000]\<rparr>)"

text \<open>Recording the outcome of one sub-trade, then the delay between sub-trades.\<close>

definition recordTrade ::
  "SubTradeParams \<Rightarrow> TradeExecutionResult \<times> call list \<Rightarrow> LoopState \<Rightarrow> LoopState" where
  "recordTrade trade outcome st =
     (case result (fst outcome) of
        None \<Rightarrow> st\<lparr>calls := snd outcome @ [Delay SUB_TRADE_DELAY_MS]\<rparr>
      | Some r \<Rightarrow>
          st\<lparr>allRebalancingResults := allRebalancingResults st @ [r],
             totalVolumeUSD := (if success r then totalVolumeUSD st + differenceValueUSD trade
                                else totalVolumeUSD st),
             calls := snd outcome @ [Delay SUB_TRADE_DELAY_MS]\<rparr>)"

fun executeSells ::
  "Env \<Rightarrow> (real \<Rightarrow> string) \<Rightarrow> Config \<Rightarrow> PriceData \<Rightarrow> BalanceEntry list \<Rightarrow> SubTradeParams list
   \<Rightarrow> LoopState \<Rightarrow> LoopState" where
  "executeSells env numberToString config priceData balances [] st = st"
| "executeSells env numberToString config priceData balances (trade # trades) st =
     executeSells env numberToString config priceData balances trades
       (recordTrade trade
          (executeSingleTrade env numberToString trade Sell balances config (Some priceData)
             (calls st))
          st)"

fun executeBuys ::
  "Env \<Rightarrow> (real \<Rightarrow> string) \<Rightarrow> Config \<Rightarrow> PriceData \<Rightarrow> SubTradeParams list
   \<Rightarrow> LoopState \<Rightarrow> LoopState" where
  "executeBuys env numberToString config priceData [] st = st"
| "executeBuys env numberToString config priceData (trade # trades) st =
     (let refreshed = getPortfolio env (calls st)
      in executeBuys env numberToString config priceData trades
           (recordTrade trade
              (executeSingleTrade env numberToString trade Buy (fst refreshed) config
                 (Some priceData) (snd refreshed))
              st))"

text \<open>
  A full trade pass: the plan sorted by priority and cut to the first trades, the sells
  and then the buys, each split into sub-trades, the pause, and the force flag cleared.
\<close>

definition tradePass ::
  "Env \<Rightarrow> (real \<Rightarrow> string) \<Rightarrow> Config \<Rightarrow> PriceData \<Rightarrow> BalanceEntry list \<Rightarrow> TradeParams list
   \<Rightarrow> LoopState \<Rightarrow> LoopState" where
  "tradePass env numberToString config priceData balances plan st =
     (let total_usd = iterationTotalUSD (pd_prices priceData) balances;
          tradesToExecute = take maxTradesPerIteration (sortByPriority plan);
          sellTrades = filter (\<lambda>t. action t = Sell) tradesToExecute;
          buyTrades = filter (\<lambda>t. action t = Buy) tradesToExecute;
          splitSellTrades =
            concat (map (\<lambda>t. splitTradeIntoSubTrades t total_usd MAX_TRADE_SIZE_PERCENT)
                        sellTrades);
          splitBuyTrades =
            concat (map (\<lambda>t. splitTradeIntoSubTrades t total_usd MAX_TRADE_SIZE_PERCENT)
                        buyTrades);
          st2 = executeSells env numberToString config priceData balances splitSellTrades st;
          st3 = executeBuys env numberToString config priceData splitBuyTrades st2
      in st3\<lparr>calls := calls st3 @ [Delay 2000], forceFlag := False\<rparr>)"

text \<open>
  One pass of the loop, after the counter was incremented: it ends the loop
  (\<open>Break\<close>) on convergence or on an empty plan, and otherwise goes on to the next
  pass (\<open>Continue\<close>), either from the bootstrap sale or from the end of a full trade
  pass.
\<close>

definition rebalancingIteration ::
  "Env \<Rightarrow> (real \<Rightarrow> string) \<Rightarrow> Config \<Rightarrow> PriceData \<Rightarrow> LoopState \<Rightarrow> loop_exit" where
  "rebalancingIteration env numberToString config priceData st =
     (let currentPortfolio = getPortfolio env (calls st);
          balances = fst currentPortfolio;
          st1 = st\<lparr>calls := snd currentPortfolio\<rparr>;
          prices = pd_prices priceData;
          maxDrift = snd (iterationDrift config prices balances)
      in if \<not> forceFlag st \<and> maxDrift \<le> convergenceThreshold then Break st1
         else
           (let plan = iterationRebalancingPlan config prices balances
            in if plan = [] then Break st1
               else if filter (\<lambda>t. action t = Buy) plan \<noteq> [] \<and>
                       filter (\<lambda>t. action t = Sell) plan = [] \<and>
                       currentStablecoins balances = [] \<and>
                       nonTargetTokens config balances \<noteq> []
               then Continue (bootstrapSale env config prices balances st1)
               else Continue (tradePass env numberToString config priceData balances plan st1)))"

text \<open>
  The loop: \<open>while (iterationsCompleted < maxIterations) { iterationsCompleted++; ... }\<close>.
  It returns the number of passes made and the final state.
\<close>

function rebalancingLoop ::
  "Env \<Rightarrow> (real \<Rightarrow> string) \<Rightarrow> Config \<Rightarrow> PriceData \<Rightarrow> nat \<Rightarrow> LoopState \<Rightarrow> nat \<times> LoopState" where
  "rebalancingLoop env numberToString config priceData iterationsCompleted st =
     (if iterationsCompleted < maxIterations
      then (case rebalancingIteration env numberToString config priceData st of
              Break st' \<Rightarrow> (iterationsCompleted + 1, st')
            | Continue st' \<Rightarrow>
                rebalancingLoop env numberToString config priceData (iterationsCompleted + 1) st')
      else (iterationsCompleted, st))"
  by pat_completeness auto
termination
  by (relation "measure (\<lambda>(env, numberToString, config, priceData, iterationsCompleted, st).
                           maxIterations - iterationsCompleted)") auto

declare rebalancingLoop.simps [simp del]

text \<open>
  The step: without a need to rebalance it returns at once; otherwise it runs the loop
  from zero passes, with the force flag of the configuration, and reads the portfolio
  once more. Of its output the model keeps the results, the number of successful trades,
  the volume, the number of passes and the calls made; the final allocation, computed
  from the last read, is left out.
\<close>

record RebalancingOutput =
  rebalancingResults :: "ToolResult list"
  totalRebalancingTrades :: nat
  totalRebalancingVolumeUSD :: real
  iterationsCompleted :: nat
  stepCalls :: "call list"

definition executeRebalancingStep ::
  "Env \<Rightarrow> (real \<Rightarrow> string) \<Rightarrow> AllocationAnalysis \<Rightarrow> Config \<Rightarrow> PriceData \<Rightarrow> RebalancingOutput" where
  "executeRebalancingStep env numberToString analysis config priceData =
     (if \<not> needsRebalancing analysis
      then \<lparr>rebalancingResults = [], totalRebalancingTrades = 0,
            totalRebalancingVolumeUSD = 0, iterationsCompleted = 0, stepCalls = []\<rparr>
      else
        (let finished = rebalancingLoop env numberToString config priceData 0
                          \<lparr>forceFlag = forceRebalance config, allRebalancingResults = [],
                           totalVolumeUSD = 0, calls = []\<rparr>;
             st = snd finished;
             finalPortfolio = getPortfolio env (calls st)
         in \<lparr>rebalancingResults = allRebalancingResults st,
             totalRebalancingTrades = length (filter success (allRebalancingResults st)),
             totalRebalancingVolumeUSD = totalVolumeUSD st,
             iterationsCompleted = fst finished,
             stepCalls = snd finalPortfolio\<rparr>))"

text \<open>
  Example inputs. The first is the default configuration of the workflow (everything in
  USDT) against a portfolio of USDC on two chains, one of them under the name USDbC, and
  an unpriced token; the second has \<open>minTradeValueUSD = 0\<close>.
\<close>

definition ex_balances :: "BalanceEntry list" where
  "ex_balances = [
    \<lparr>tokenAddress = ''0xA0b86991c6218b36c1d19D4a2e9Eb0cE3606eB48'', amount = 600, specificChain = ''eth'', symbol = ''USDC'', chain = ''evm''\<rparr>,
    \<lparr>tokenAddress = ''0xd9aAEc86B65D86f6A7B5B1b0c42FFA531710b6CA'', amount = 400, specificChain = ''base'', symbol = ''USDbC'', chain = ''evm''\<rparr>,
    \<lparr>tokenAddress = ''0x514910771AF9Ca656af840dff83E8264EcF986CA'', amount = 10, specificChain = ''eth'', symbol = ''LINK'', chain = ''evm''\<rparr>]"

definition ex_prices :: dict where
  "ex_prices = [(''USDC'', 1), (''WETH'', 2000), (''USDT'', 1), (''SOL'', 150)]"

definition ex_config :: Config where
  "ex_config = \<lparr>targetAllocation = [(''USDC'', 0), (''WETH'', 0), (''USDT'', 1), (''SOL'', 0)],
     consolidateToChain = None, rebalanceThreshold = 0.001, minTradeValueUSD = 0.01,
     maxSlippage = ''2'', forceRebalance = False, skipConsolidation = False\<rparr>"













definition default_chain_request :: TradeContext where
  "default_chain_request =
     \<lparr>fromSymbol = ''USDC'', toSymbol = ''USDC'', TradeContext.amount = 100,
      TradeContext.reason = ''Move USDC to the Ethereum balance'',
      TradeContext.slippageTolerance = ''0.5'',
      TradeContext.fromSpecificChain = None,
      TradeContext.toSpecificChain = Some ''eth''\<rparr>"

definition usdc_env :: Env where
  "usdc_env = \<lparr>balancesResponse = (\<lambda>trace. Inr ex_balances),
               tradeResponse = (\<lambda>trace payload. Inr \<lparr>dataSuccess = None, dataStatus = None\<rparr>)\<rparr>"

definition self_payload :: TradePayload where
  "self_payload = \<lparr>fromToken = ''0xA0b86991c6218b36c1d19D4a2e9Eb0cE3606eB48'',
      toToken = ''0xA0b86991c6218b36c1d19D4a2e9Eb0cE3606eB48'',
      TradePayload.amount = 100,
      TradePayload.reason = ''Move USDC to the Ethereum balance'',
      TradePayload.slippageTolerance = ''0.5'',
      TradePayload.fromChain = ''evm'',
      TradePayload.fromSpecificChain = ''eth'',
      TradePayload.toChain = ''evm'',
      TradePayload.toSpecificChain = ''eth''\<rparr>"

text \<open>
  Example runs of the loop. A portfolio of two dust holdings under the default
  allocation: the plan is a single buy and no stablecoin is held. An exchange that
  accepts the bootstrap sale and one that refuses it. An account that holds the dust
  until the first trade was sent and 1000 USDT with a little WETH afterwards, run with
  \<open>forceRebalance\<close> set.
\<close>

definition dust_balances :: "BalanceEntry list" where
  "dust_balances = [
    \<lparr>tokenAddress = ''0xC02aaA39b223FE8D0A0e5C4F27eAD9083C756Cc2'', amount = 0.000004, specificChain = ''eth'', symbol = ''WETH'', chain = ''evm''\<rparr>,
    \<lparr>tokenAddress = ''So11111111111111111111111111111111111111112'', amount = 0.00002, specificChain = ''svm'', symbol = ''SOL'', chain = ''svm''\<rparr>]"

definition ex_price_data :: PriceData where
  "ex_price_data = \<lparr>pd_success = True, pd_prices = ex_prices, pd_errors = None\<rparr>"

definition dust_env :: Env where
  "dust_env = \<lparr>balancesResponse = (\<lambda>trace. Inr dust_balances),
               tradeResponse = (\<lambda>trace payload. Inr \<lparr>dataSuccess = None, dataStatus = None\<rparr>)\<rparr>"

definition refusing_env :: Env where
  "refusing_env = \<lparr>balancesResponse = (\<lambda>trace. Inr dust_balances),
                   tradeResponse = (\<lambda>trace payload. Inl (HttpStatus 400))\<rparr>"

definition start_state :: LoopState where
  "start_state = \<lparr>forceFlag = False, allRebalancingResults = [], totalVolumeUSD = 0, calls = []\<rparr>"

definition dust_payload :: TradePayload where
  "dust_payload = \<lparr>fromToken = ''0xC02aaA39b223FE8D0A0e5C4F27eAD9083C756Cc2'',
      toToken = ''0xA0b86991c6218b36c1d19D4a2e9Eb0cE3606eB48'',
      TradePayload.amount = 0.000004,
      TradePayload.reason = ''Converting non-target WETH to USDC for rebalancing'',
      TradePayload.slippageTolerance = ''2'',
      TradePayload.fromChain = ''evm'',
      TradePayload.fromSpecificChain = ''eth'',
      TradePayload.toChain = ''evm'',
      TradePayload.toSpecificChain = ''eth''\<rparr>"

definition dust_refresh :: "call list" where
  "dust_refresh =
     [GetBalances,
      GetTokenPrice ''0xC02aaA39b223FE8D0A0e5C4F27eAD9083C756Cc2'' ''evm'' ''eth'',
      GetTokenPrice ''So11111111111111111111111111111111111111112'' ''svm'' ''svm'']"

definition dust_after :: LoopState where
  "dust_after = \<lparr>forceFlag = False,
                 allRebalancingResults = [\<lparr>success = True, status = ''executed''\<rparr>],
                 totalVolumeUSD = 0.008,
                 calls = dust_refresh @ [GetBalances, PostTrade dust_payload, Delay 3000]\<rparr>"

definition refused_after :: LoopState where
  "refused_after = \<lparr>forceFlag = False,
                    allRebalancingResults = [],
                    totalVolumeUSD = 0,
                    calls = dust_refresh @ [GetBalances, PostTrade dust_payload, Delay 3000]\<rparr>"

definition settled_balances :: "BalanceEntry list" where
  "settled_balances = [
    \<lparr>tokenAddress = ''0xdAC17F958D2ee523a2206206994597C13D831ec7'', amount = 1000, specificChain = ''eth'', symbol = ''USDT'', chain = ''evm''\<rparr>,
    \<lparr>tokenAddress = ''0xC02aaA39b223FE8D0A0e5C4F27eAD9083C756Cc2'', amount = 0.001, specificChain = ''eth'', symbol = ''WETH'', chain = ''evm''\<rparr>]"

definition deposit_env :: Env where
  "deposit_env =
     \<lparr>balancesResponse = (\<lambda>trace. if postsOf trace = [] then Inr dust_balances
                                  else Inr settled_balances),
      tradeResponse = (\<lambda>trace payload. Inr \<lparr>dataSuccess = None, dataStatus = None\<rparr>)\<rparr>"

definition forced_config :: Config where
  "forced_config = ex_config\<lparr>forceRebalance := True\<rparr>"

definition settled_refresh :: "call list" where
  "settled_refresh =
     [GetBalances,
      GetTokenPrice ''0xdAC17F958D2ee523a2206206994597C13D831ec7'' ''evm'' ''eth'',
      GetTokenPrice ''0xC02aaA39b223FE8D0A0e5C4F27eAD9083C756Cc2'' ''evm'' ''eth'']"

definition settled_payload :: TradePayload where
  "settled_payload = \<lparr>fromToken = ''0xC02aaA39b223FE8D0A0e5C4F27eAD9083C756Cc2'',
      toToken = ''0xA0b86991c6218b36c1d19D4a2e9Eb0cE3606eB48'',
      TradePayload.amount = 0.001,
      TradePayload.reason = ''Smart rebalancing: reducing WETH allocation'',
      TradePayload.slippageTolerance = ''2'',
      TradePayload.fromChain = ''evm'',
      TradePayload.fromSpecificChain = ''eth'',
      TradePayload.toChain = ''evm'',
      TradePayload.toSpecificChain = ''eth''\<rparr>"

definition settled_sell :: "real \<Rightarrow> TradeParams" where
  "settled_sell p = \<lparr>action = Sell, symbol = ''WETH'', currentAmount = 0.001, targetAmount = 0,
     differenceAmount = 0.001, differenceValueUSD = 2, priority = p, preferredChain = ''eth''\<rparr>"

definition settled_buy :: TradeParams where
  "settled_buy = \<lparr>action = Buy, symbol = ''USDT'', currentAmount = 1000, targetAmount = 1002,
     differenceAmount = 2, differenceValueUSD = 2, priority = 100 / 501, preferredChain = ''eth''\<rparr>"

definition forced_start :: LoopState where
  "forced_start = \<lparr>forceFlag = True, allRebalancingResults = [], totalVolumeUSD = 0, calls = []\<rparr>"

definition after_bootstrap :: LoopState where
  "after_bootstrap = \<lparr>forceFlag = True,
                 allRebalancingResults = [\<lparr>success = True, status = ''executed''\<rparr>],
                 totalVolumeUSD = 0.008,
                 calls = dust_refresh @ [GetBalances, PostTrade dust_payload, Delay 3000]\<rparr>"

definition after_trades :: LoopState where
  "after_trades = \<lparr>forceFlag = False,
                 allRebalancingResults =
                   [\<lparr>success = True, status = ''executed''\<rparr>,
                    \<lparr>success = True, status = ''executed''\<rparr>,
                    \<lparr>success = True, status = ''executed''\<rparr>,
                    \<lparr>success = False, status = ''invalid_trade''\<rparr>],
                 totalVolumeUSD = 4.008,
                 calls = dust_refresh @ [GetBalances, PostTrade dust_payload, Delay 3000] @
                         settled_refresh @
                         [GetBalances, PostTrade settled_payload, Delay 3000,
                          GetBalances, PostTrade settled_payload, Delay 3000] @
                         settled_refresh @ [Delay 3000, Delay 2000]\<rparr>"

definition settled_context :: TradeContext where
  "settled_context =
     \<lparr>fromSymbol = ''WETH'', toSymbol = ''USDC'', TradeContext.amount = 0.001,
      TradeContext.reason = ''Smart rebalancing: reducing WETH allocation'',
      TradeContext.slippageTolerance = ''2'',
      TradeContext.fromSpecificChain = Some ''eth'',
      TradeContext.toSpecificChain = Some ''eth''\<rparr>"

definition settled_buy_context :: TradeContext where
  "settled_buy_context =
     \<lparr>fromSymbol = ''USDT'', toSymbol = ''USDT'', TradeContext.amount = 2,
      TradeContext.reason = ''Smart rebalancing: increasing USDT allocation'',
      TradeContext.slippageTolerance = ''2'',
      TradeContext.fromSpecificChain = Some ''eth'',
      TradeContext.toSpecificChain = Some ''eth''\<rparr>"

definition forced_analysis :: AllocationAnalysis where
  "forced_analysis = \<lparr>totalValueUSD = 0.011,
        currentAllocation = [(''USDC'', 0), (''WETH'', 8 / 11), (''USDT'', 0), (''SOL'', 3 / 11)],
        targetAllocation = [(''USDC'', 0), (''WETH'', 0), (''USDT'', 1), (''SOL'', 0)],
        allocationDrift = [(''USDC'', 0), (''WETH'', 8 / 11), (''USDT'', 1), (''SOL'', 3 / 11)],
        needsRebalancing = True,
        rebalancingPlan =
          [\<lparr>action = Buy, symbol = ''USDT'', currentAmount = 0,
              targetAmount = 0.011, differenceAmount = 0.011,
              differenceValueUSD = 0.011, priority = 100,
              preferredChain = ''eth''\<rparr>]\<rparr>"

definition final_state :: LoopState where
  "final_state = after_trades\<lparr>calls := calls after_trades @ settled_refresh\<rparr>"

chapter \<open>Verified properties\<close>

section \<open>Trade splitter\<close>

lemma withSubTrade_sel [simp]:
  "differenceAmount (withSubTrade t i n) = differenceAmount t"
  "differenceValueUSD (withSubTrade t i n) = differenceValueUSD t"
  "subTradeIndex (withSubTrade t i n) = i"
  "totalSubTrades (withSubTrade t i n) = n"
  "symbol (withSubTrade t i n) = symbol t"
  "action (withSubTrade t i n) = action t"
  "preferredChain (withSubTrade t i n) = preferredChain t"
  by (simp_all add: withSubTrade_def TradeParams.extend_def)

lemma split_single:
  "pv \<le> 0 \<or> mtp \<le> 0 \<or> differenceValueUSD trade \<le> pv * mtp \<Longrightarrow>
   splitTradeIntoSubTrades trade pv mtp = [withSubTrade trade 1 1]"
  by (auto simp: splitTradeIntoSubTrades_def Let_def)

lemma split_count_ge2:
  assumes "0 < pv" "0 < mtp" "pv * mtp < v"
  shows "2 \<le> \<lceil>v / (pv * mtp)\<rceil>"
proof -
  have "0 < pv * mtp" using assms by simp
  then have "1 < v / (pv * mtp)" using assms by (simp add: field_simps)
  then have "1 < \<lceil>v / (pv * mtp)\<rceil>" by (simp add: less_ceiling_iff)
  then show ?thesis by linarith
qed

lemma split_many:
  assumes "\<not> (pv \<le> 0 \<or> mtp \<le> 0 \<or> differenceValueUSD trade \<le> pv * mtp)"
  shows "splitTradeIntoSubTrades trade pv mtp =
     map (\<lambda>i. (withSubTrade trade (int i + 1) \<lceil>differenceValueUSD trade / (pv * mtp)\<rceil>)
                 \<lparr>differenceAmount := differenceAmount trade / of_int \<lceil>differenceValueUSD trade / (pv * mtp)\<rceil>,
                  differenceValueUSD := differenceValueUSD trade / of_int \<lceil>differenceValueUSD trade / (pv * mtp)\<rceil>\<rparr>)
         [0..<nat \<lceil>differenceValueUSD trade / (pv * mtp)\<rceil>]"
proof -
  from assms have pos: "0 < pv" "0 < mtp" "pv * mtp < differenceValueUSD trade" by auto
  then have m: "0 < pv * mtp" by simp
  have v: "0 < differenceValueUSD trade" using pos m by linarith
  have n: "2 \<le> \<lceil>differenceValueUSD trade / (pv * mtp)\<rceil>"
    using split_count_ge2[OF pos] .
  then have mx: "max 1 \<lceil>differenceValueUSD trade / (pv * mtp)\<rceil> = \<lceil>differenceValueUSD trade / (pv * mtp)\<rceil>"
    by linarith
  have g: "\<not> pv \<le> 0" "\<not> mtp \<le> 0" "\<not> pv * mtp \<le> 0" "\<not> differenceValueUSD trade \<le> 0"
    "\<not> differenceValueUSD trade \<le> pv * mtp" "pv \<noteq> 0" "mtp \<noteq> 0"
    "differenceValueUSD trade \<noteq> 0" "pv * mtp \<noteq> 0"
    using pos m v by linarith+
  show ?thesis
    unfolding splitTradeIntoSubTrades_def Let_def mx
    using g by (simp only: if_False simp_thms)
qed

lemma split_not_Nil: "splitTradeIntoSubTrades trade pv mtp \<noteq> []"
proof (cases "pv \<le> 0 \<or> mtp \<le> 0 \<or> differenceValueUSD trade \<le> pv * mtp")
  case True
  then show ?thesis by (simp add: split_single)
next
  case False
  then have "2 \<le> \<lceil>differenceValueUSD trade / (pv * mtp)\<rceil>"
    using split_count_ge2[of pv mtp "differenceValueUSD trade"] by auto
  then have "[0..<nat \<lceil>differenceValueUSD trade / (pv * mtp)\<rceil>] \<noteq> []" by auto
  then show ?thesis unfolding split_many[OF False] by (simp del: upt_eq_Nil_conv)
qed






section \<open>Dictionaries\<close>

lemma map_of_setKey: "map_of (setKey obj k v) = (map_of obj)(k \<mapsto> v)"
  by (induction obj) (auto simp: fun_eq_iff)

lemma getOr0_setKey: "getOr0 (setKey obj k v) k' = (if k' = k then v else getOr0 obj k')"
  by (simp add: getOr0_def map_of_setKey)

lemma keys_setKey: "fst ` set (setKey obj k v) = insert k (fst ` set obj)"
proof -
  have "fst ` set (setKey obj k v) = dom (map_of (setKey obj k v))"
    by (simp add: dom_map_of_conv_image_fst)
  also have "\<dots> = insert k (dom (map_of obj))" by (simp add: map_of_setKey)
  finally show ?thesis by (simp add: dom_map_of_conv_image_fst)
qed

lemma distinct_setKey: "distinct (map fst obj) \<Longrightarrow> distinct (map fst (setKey obj k v))"
  by (induction obj) (auto simp: keys_setKey)


lemma getOr0_notin: "k \<notin> fst ` set obj \<Longrightarrow> getOr0 obj k = 0"
  by (simp add: getOr0_def map_of_eq_None_iff[THEN iffD2])

lemma getOr0_in: "distinct (map fst obj) \<Longrightarrow> (k, v) \<in> set obj \<Longrightarrow> getOr0 obj k = v"
  by (simp add: getOr0_def)

section \<open>Allocation analyzer\<close>

lemma group_fold_getOr0:
  "getOr0 (foldl groupStep acc bs) s =
     getOr0 acc s + sum_list (map amount (filter (\<lambda>b. normalizedSymbol (BalanceEntry.symbol b) = s) bs))"
  by (induction bs arbitrary: acc) (auto simp: groupStep_def getOr0_setKey)

lemma group_fold_keys:
  "fst ` set (foldl groupStep acc bs) = fst ` set acc \<union> (\<lambda>b. normalizedSymbol (BalanceEntry.symbol b)) ` set bs"
  by (induction bs arbitrary: acc) (auto simp: groupStep_def keys_setKey)

lemma group_fold_distinct:
  "distinct (map fst acc) \<Longrightarrow> distinct (map fst (foldl groupStep acc bs))"
  by (induction bs arbitrary: acc) (auto simp: groupStep_def distinct_setKey)

lemma groupBalances_fold: "groupBalances bs = foldl groupStep [] bs"
  by (simp add: groupBalances_def)

lemma groupBalances_amount:
  "getOr0 (groupBalances bs) s =
     sum_list (map amount (filter (\<lambda>b. normalizedSymbol (BalanceEntry.symbol b) = s) bs))"
  by (simp add: groupBalances_fold group_fold_getOr0) (simp add: getOr0_def)

lemma groupBalances_keys:
  "fst ` set (groupBalances bs) = (\<lambda>b. normalizedSymbol (BalanceEntry.symbol b)) ` set bs"
  by (simp add: groupBalances_fold group_fold_keys)

lemma groupBalances_distinct: "distinct (map fst (groupBalances bs))"
  by (simp add: groupBalances_fold group_fold_distinct)




















lemma entry_held:
  assumes "(tok, amt) \<in> set (groupBalances bs)"
  shows "tok \<in> (\<lambda>b. normalizedSymbol (BalanceEntry.symbol b)) ` set bs \<and>
         amt = sum_list (map amount (filter (\<lambda>b. normalizedSymbol (BalanceEntry.symbol b) = tok) bs))"
proof -
  have "tok \<in> fst ` set (groupBalances bs)" using assms by force
  moreover have "getOr0 (groupBalances bs) tok = amt"
    using assms groupBalances_distinct by (simp add: getOr0_in)
  ultimately show ?thesis by (simp add: groupBalances_keys groupBalances_amount)
qed



























section \<open>Price step and target allocation\<close>

lemma set_setKey_subset: "set (setKey raw tok x) \<subseteq> insert (tok, x) (set raw)"
proof (induction raw)
  case Nil
  show ?case by simp
next
  case (Cons e raw)
  then show ?case by (cases e) auto
qed

lemma addPercent_positive:
  assumes "\<forall>v \<in> snd ` set raw. 0 < v"
  shows "\<forall>v \<in> snd ` set (addPercent raw tok p). 0 < v"
proof (cases p)
  case None
  then show ?thesis using assms by (simp add: addPercent_def)
next
  case (Some x)
  show ?thesis
  proof (cases "x \<noteq> 0 \<and> x > 0")
    case True
    have "0 < v" if "v \<in> snd ` set (setKey raw tok x)" for v
    proof -
      from that obtain k where "(k, v) \<in> set (setKey raw tok x)" by force
      then have "(k, v) = (tok, x) \<or> (k, v) \<in> set raw"
        using set_setKey_subset[of raw tok x] by blast
      then show ?thesis using assms True by force
    qed
    then show ?thesis using True Some by (simp add: addPercent_def)
  next
    case False
    then have "addPercent raw tok p = raw" using Some by (auto simp: addPercent_def)
    then show ?thesis using assms by simp
  qed
qed

lemma rawAllocation_positive: "\<forall>v \<in> snd ` set (rawAllocationOf inp). 0 < v"
  unfolding rawAllocationOf_def
  by (intro addPercent_positive) simp

lemma foldl_plus: "foldl (\<lambda>acc v. acc + v) a xs = a + sum_list (xs :: real list)"
  by (induction xs arbitrary: a) simp_all

lemma positive_sum: "xs \<noteq> [] \<Longrightarrow> \<forall>v \<in> set xs. 0 < v \<Longrightarrow> 0 < sum_list (xs :: real list)"
  by (induction xs) (auto intro: add_pos_nonneg sum_list_nonneg less_imp_le)

lemma allocation_never_fails: "normalizedTargetAllocation inp \<noteq> Inl e"
proof -
  have "0 < foldl (\<lambda>acc v. acc + v) 0 (map snd (rawAllocationOf inp))"
    if "rawAllocationOf inp \<noteq> []"
    using that rawAllocation_positive[of inp] positive_sum[of "map snd (rawAllocationOf inp)"]
    by (simp add: foldl_plus)
  then show ?thesis
    by (auto simp: normalizedTargetAllocation_def Let_def)
qed

lemma addPercent_skip: "percentOr0 p \<le> 0 \<Longrightarrow> addPercent raw tok p = raw"
  by (auto simp: addPercent_def percentOr0_def split: option.splits)

text \<open>
  C9, as amended. For every input the step builds a target allocation, makes exactly one
  external call, the price fetch, and returns: only positive percentages enter the raw
  allocation, so the guard on a sum that is not positive is never taken. When the
  percentages of the input are non-negative and sum to at most 0 (one that is missing
  counting as 0), the allocation is the default one. The guard stands before the price
  fetch: were the allocation an error, the step would return it with no call made.
\<close>

theorem fetchPricesStep_allocation_contract:
  "(\<exists>allocation.
      normalizedTargetAllocation inputData = Inr allocation \<and>
      fetchPricesStep getPrice numberToString inputData =
        ([GetPrice [''USDC'', ''WETH'', ''USDT'', ''SOL''] ''eth''],
         Inr \<lparr>outPrices = getPrice [''USDC'', ''WETH'', ''USDT'', ''SOL''] ''eth'',
              outConfig = \<lparr>targetAllocation = allocation,
                 consolidateToChain = inputConsolidateToChain inputData,
                 rebalanceThreshold = DEFAULT_REBALANCE_THRESHOLD,
                 minTradeValueUSD = DEFAULT_MIN_TRADE_VALUE_USD,
                 maxSlippage = numberToString (slippage inputData),
                 forceRebalance = inputForceRebalance inputData,
                 skipConsolidation = inputSkipConsolidation inputData\<rparr>\<rparr>)) \<and>
   ((\<forall>p \<in> {usdcPercent inputData, wethPercent inputData, usdtPercent inputData, solPercent inputData}.
        0 \<le> percentOr0 p) \<and>
    percentOr0 (usdcPercent inputData) + percentOr0 (wethPercent inputData) +
    percentOr0 (usdtPercent inputData) + percentOr0 (solPercent inputData) \<le> 0
    \<longrightarrow> normalizedTargetAllocation inputData = Inr DEFAULT_TARGET_ALLOCATION) \<and>
   (\<forall>e. normalizedTargetAllocation inputData = Inl e \<longrightarrow>
        fetchPricesStep getPrice numberToString inputData = ([], Inl e))"
proof (intro conjI)
  obtain allocation where a: "normalizedTargetAllocation inputData = Inr allocation"
    using allocation_never_fails[of inputData] by (cases "normalizedTargetAllocation inputData") auto
  show "\<exists>allocation.
      normalizedTargetAllocation inputData = Inr allocation \<and>
      fetchPricesStep getPrice numberToString inputData =
        ([GetPrice [''USDC'', ''WETH'', ''USDT'', ''SOL''] ''eth''],
         Inr \<lparr>outPrices = getPrice [''USDC'', ''WETH'', ''USDT'', ''SOL''] ''eth'',
              outConfig = \<lparr>targetAllocation = allocation,
                 consolidateToChain = inputConsolidateToChain inputData,
                 rebalanceThreshold = DEFAULT_REBALANCE_THRESHOLD,
                 minTradeValueUSD = DEFAULT_MIN_TRADE_VALUE_USD,
                 maxSlippage = numberToString (slippage inputData),
                 forceRebalance = inputForceRebalance inputData,
                 skipConsolidation = inputSkipConsolidation inputData\<rparr>\<rparr>)"
    using a by (simp add: fetchPricesStep_def Let_def)
next
  show "(\<forall>p \<in> {usdcPercent inputData, wethPercent inputData, usdtPercent inputData, solPercent inputData}.
        0 \<le> percentOr0 p) \<and>
    percentOr0 (usdcPercent inputData) + percentOr0 (wethPercent inputData) +
    percentOr0 (usdtPercent inputData) + percentOr0 (solPercent inputData) \<le> 0
    \<longrightarrow> normalizedTargetAllocation inputData = Inr DEFAULT_TARGET_ALLOCATION"
  proof
    assume h: "(\<forall>p \<in> {usdcPercent inputData, wethPercent inputData, usdtPercent inputData, solPercent inputData}.
        0 \<le> percentOr0 p) \<and>
      percentOr0 (usdcPercent inputData) + percentOr0 (wethPercent inputData) +
      percentOr0 (usdtPercent inputData) + percentOr0 (solPercent inputData) \<le> 0"
    then have "percentOr0 (usdcPercent inputData) \<le> 0" "percentOr0 (wethPercent inputData) \<le> 0"
      "percentOr0 (usdtPercent inputData) \<le> 0" "percentOr0 (solPercent inputData) \<le> 0"
      by auto
    then have "rawAllocationOf inputData = []"
      by (simp add: rawAllocationOf_def addPercent_skip)
    then show "normalizedTargetAllocation inputData = Inr DEFAULT_TARGET_ALLOCATION"
      by (simp add: normalizedTargetAllocation_def)
  qed
next
  show "\<forall>e. normalizedTargetAllocation inputData = Inl e \<longrightarrow>
        fetchPricesStep getPrice numberToString inputData = ([], Inl e)"
    by (simp add: fetchPricesStep_def)
qed

text \<open>
  As stated the claim fails: an input whose percentages are all 0 sums to 0, and the step
  returns the default allocation after fetching the prices.
\<close>

theorem fetchPricesStep_zero_sum_counterexample:
  "percentOr0 (usdcPercent zero_input) + percentOr0 (wethPercent zero_input) +
   percentOr0 (usdtPercent zero_input) + percentOr0 (solPercent zero_input) \<le> 0 \<and>
   fetchPricesStep fixed_prices print_two zero_input =
     ([GetPrice [''USDC'', ''WETH'', ''USDT'', ''SOL''] ''eth''],
      Inr \<lparr>outPrices = fixed_prices [''USDC'', ''WETH'', ''USDT'', ''SOL''] ''eth'',
           outConfig = \<lparr>targetAllocation = [(''USDC'', 0), (''WETH'', 0), (''USDT'', 1), (''SOL'', 0)],
              consolidateToChain = None, rebalanceThreshold = 0.001, minTradeValueUSD = 0.01,
              maxSlippage = ''2'', forceRebalance = False, skipConsolidation = False\<rparr>\<rparr>)"
  by (simp add: zero_input_def fetchPricesStep_def normalizedTargetAllocation_def rawAllocationOf_def
      addPercent_def DEFAULT_TARGET_ALLOCATION_def DEFAULT_REBALANCE_THRESHOLD_def
      DEFAULT_MIN_TRADE_VALUE_USD_def print_two_def percentOr0_def Let_def)

theorem fetchPricesStep_allocation_contract_witness:
  "0 \<le> percentOr0 (usdcPercent zero_input) \<and> 0 \<le> percentOr0 (wethPercent zero_input) \<and>
   0 \<le> percentOr0 (usdtPercent zero_input) \<and> 0 \<le> percentOr0 (solPercent zero_input) \<and>
   percentOr0 (usdcPercent zero_input) + percentOr0 (wethPercent zero_input) +
   percentOr0 (usdtPercent zero_input) + percentOr0 (solPercent zero_input) \<le> 0 \<and>
   normalizedTargetAllocation zero_input = Inr DEFAULT_TARGET_ALLOCATION \<and>
   fst (fetchPricesStep fixed_prices print_two zero_input) =
     [GetPrice [''USDC'', ''WETH'', ''USDT'', ''SOL''] ''eth'']"
proof -
  have z: "percentOr0 (usdcPercent zero_input) = 0" "percentOr0 (wethPercent zero_input) = 0"
    "percentOr0 (usdtPercent zero_input) = 0" "percentOr0 (solPercent zero_input) = 0"
    by (simp_all add: zero_input_def percentOr0_def)
  have h: "(\<forall>p \<in> {usdcPercent zero_input, wethPercent zero_input, usdtPercent zero_input, solPercent zero_input}.
        0 \<le> percentOr0 p) \<and>
    percentOr0 (usdcPercent zero_input) + percentOr0 (wethPercent zero_input) +
    percentOr0 (usdtPercent zero_input) + percentOr0 (solPercent zero_input) \<le> 0"
    by (simp add: z)
  note c = fetchPricesStep_allocation_contract[of zero_input fixed_prices print_two]
  from c h have d: "normalizedTargetAllocation zero_input = Inr DEFAULT_TARGET_ALLOCATION"
    by blast
  from c obtain allocation where
    "fetchPricesStep fixed_prices print_two zero_input =
        ([GetPrice [''USDC'', ''WETH'', ''USDT'', ''SOL''] ''eth''],
         Inr \<lparr>outPrices = fixed_prices [''USDC'', ''WETH'', ''USDT'', ''SOL''] ''eth'',
              outConfig = \<lparr>targetAllocation = allocation,
                 consolidateToChain = inputConsolidateToChain zero_input,
                 rebalanceThreshold = DEFAULT_REBALANCE_THRESHOLD,
                 minTradeValueUSD = DEFAULT_MIN_TRADE_VALUE_USD,
                 maxSlippage = print_two (slippage zero_input),
                 forceRebalance = inputForceRebalance zero_input,
                 skipConsolidation = inputSkipConsolidation zero_input\<rparr>\<rparr>)"
    by blast
  then have f: "fst (fetchPricesStep fixed_prices print_two zero_input) =
     [GetPrice [''USDC'', ''WETH'', ''USDT'', ''SOL''] ''eth'']"
    by simp
  show ?thesis using d f by (simp add: z)
qed

section \<open>Token registry\<close>

lemma tokenKeys:
  "remove1 (CHR ''w'') (toLowerCase ''USDC'') = ''usdc''"
  "remove1 (CHR ''w'') (toLowerCase ''WETH'') = ''eth''"
  "remove1 (CHR ''w'') (toLowerCase ''USDT'') = ''usdt''"
  by (simp_all add: toLowerCase_def lowerChar_def)

lemma supported_cases:
  "tok \<in> set SUPPORTED_TOKENS \<longleftrightarrow> tok = ''USDC'' \<or> tok = ''WETH'' \<or> tok = ''USDT'' \<or> tok = ''SOL''"
  by (auto simp: SUPPORTED_TOKENS_def)

lemma chain_cases:
  "map_of SPESIFIC_CHAIN_TOKENS c = Some toks \<Longrightarrow>
   c = ''eth'' \<or> c = ''polygon'' \<or> c = ''base'' \<or> c = ''svm'' \<or> c = ''arbitrum'' \<or> c = ''optimism''"
  by (auto simp: SPESIFIC_CHAIN_TOKENS_def split: if_splits)

lemma getTokenInfo_chain:
  assumes "c \<noteq> []" "getTokenInfo tok (Some c) = Inr ti"
  shows "TokenInfo.specificChain ti = c"
  using assms
  by (auto simp: getTokenInfo_def Let_def orElse_def truthy_def split: if_splits option.splits)


lemma getTokenInfo_address:
  assumes "tok \<in> set SUPPORTED_TOKENS" "c \<noteq> []" "getTokenInfo tok (Some c) = Inr ti"
  shows "(tok = ''SOL'' \<and> address ti = ''So11111111111111111111111111111111111111112'') \<or>
         (tok \<noteq> ''SOL'' \<and>
          (\<exists>toks. map_of SPESIFIC_CHAIN_TOKENS c = Some toks \<and>
                  map_of toks (remove1 (CHR ''w'') (toLowerCase tok)) = Some (address ti)))"
  using assms
  by (auto simp: getTokenInfo_def Let_def orElse_def truthy_def SPESIFIC_CHAIN_TOKENS_def
      split: if_splits option.splits)

lemma table_distinct:
  "\<forall>entry \<in> set SPESIFIC_CHAIN_TOKENS. distinct (map snd (snd entry))"
  by (simp add: SPESIFIC_CHAIN_TOKENS_def)

lemma table_sol:
  "\<forall>entry \<in> set SPESIFIC_CHAIN_TOKENS. \<forall>ka \<in> set (snd entry).
      snd ka = ''So11111111111111111111111111111111111111112'' \<longrightarrow> fst ka = ''sol''"
  by (simp add: SPESIFIC_CHAIN_TOKENS_def)

lemma distinct_snd_key:
  assumes "distinct (map snd xs)" "(k1, a) \<in> set xs" "(k2, a) \<in> set xs"
  shows "k1 = k2"
proof -
  from assms(1) have "inj_on snd (set xs)" by (simp add: distinct_map)
  from inj_onD[OF this, of "(k1, a)" "(k2, a)"] assms(2,3) show ?thesis by simp
qed

lemma table_injective:
  assumes "map_of SPESIFIC_CHAIN_TOKENS c = Some toks"
    "map_of toks k1 = Some a" "map_of toks k2 = Some a"
  shows "k1 = k2"
proof -
  from assms(1) have "(c, toks) \<in> set SPESIFIC_CHAIN_TOKENS" by (rule map_of_SomeD)
  with table_distinct have "distinct (map snd toks)" by force
  moreover have "(k1, a) \<in> set toks" "(k2, a) \<in> set toks"
    using assms(2,3) by (auto dest: map_of_SomeD)
  ultimately show ?thesis by (rule distinct_snd_key)
qed

lemma sol_address_unique:
  assumes "map_of SPESIFIC_CHAIN_TOKENS c = Some toks"
    "map_of toks k = Some ''So11111111111111111111111111111111111111112''"
  shows "k = ''sol''"
proof -
  from assms(1) have "(c, toks) \<in> set SPESIFIC_CHAIN_TOKENS" by (rule map_of_SomeD)
  moreover have "(k, ''So11111111111111111111111111111111111111112'') \<in> set toks"
    using assms(2) by (rule map_of_SomeD)
  ultimately show ?thesis using table_sol by force
qed

lemma tokenKey_cases:
  assumes "t \<in> set SUPPORTED_TOKENS" "t \<noteq> ''SOL''"
  shows "(t = ''USDC'' \<and> remove1 (CHR ''w'') (toLowerCase t) = ''usdc'') \<or>
         (t = ''WETH'' \<and> remove1 (CHR ''w'') (toLowerCase t) = ''eth'') \<or>
         (t = ''USDT'' \<and> remove1 (CHR ''w'') (toLowerCase t) = ''usdt'')"
proof -
  from assms have "t = ''USDC'' \<or> t = ''WETH'' \<or> t = ''USDT''"
    by (simp add: supported_cases)
  then show ?thesis using tokenKeys by blast
qed

lemma tokenKey_injective:
  assumes "t1 \<in> set SUPPORTED_TOKENS" "t2 \<in> set SUPPORTED_TOKENS" "t1 \<noteq> ''SOL''" "t2 \<noteq> ''SOL''"
    "remove1 (CHR ''w'') (toLowerCase t1) = remove1 (CHR ''w'') (toLowerCase t2)"
  shows "t1 = t2"
proof -
  have d: "''usdc'' \<noteq> ''eth''" "''usdc'' \<noteq> ''usdt''" "''eth'' \<noteq> ''usdt''" by simp_all
  from tokenKey_cases[OF assms(1,3)] tokenKey_cases[OF assms(2,4)] assms(5) d
  show ?thesis by metis
qed

lemma tokenKey_not_sol:
  assumes "t1 \<in> set SUPPORTED_TOKENS" "t1 \<noteq> ''SOL''"
  shows "remove1 (CHR ''w'') (toLowerCase t1) \<noteq> ''sol''"
proof -
  have d: "''usdc'' \<noteq> ''sol''" "''eth'' \<noteq> ''sol''" "''usdt'' \<noteq> ''sol''" by simp_all
  from tokenKey_cases[OF assms] d show ?thesis by metis
qed

lemma resolved_injective:
  assumes s1: "t1 \<in> set SUPPORTED_TOKENS" and s2: "t2 \<in> set SUPPORTED_TOKENS" and c: "c \<noteq> []"
    and g1: "getTokenInfo t1 (Some c) = Inr i1" and g2: "getTokenInfo t2 (Some c) = Inr i2"
    and eq: "address i1 = address i2"
  shows "t1 = t2"
proof -
  note a1 = getTokenInfo_address[OF s1 c g1] and a2 = getTokenInfo_address[OF s2 c g2]
  show ?thesis
  proof (cases "t1 = ''SOL''")
    case True
    show ?thesis
    proof (cases "t2 = ''SOL''")
      case True
      with \<open>t1 = ''SOL''\<close> show ?thesis by simp
    next
      case False
      from a2 False obtain toks where
        "map_of SPESIFIC_CHAIN_TOKENS c = Some toks"
        "map_of toks (remove1 (CHR ''w'') (toLowerCase t2)) = Some (address i2)" by blast
      moreover have "address i2 = ''So11111111111111111111111111111111111111112''"
        using a1 True eq by simp
      ultimately have "remove1 (CHR ''w'') (toLowerCase t2) = ''sol''"
        using sol_address_unique by simp
      with tokenKey_not_sol[OF s2 False] show ?thesis by simp
    qed
  next
    case False
    from a1 False obtain toks where t1:
      "map_of SPESIFIC_CHAIN_TOKENS c = Some toks"
      "map_of toks (remove1 (CHR ''w'') (toLowerCase t1)) = Some (address i1)" by blast
    show ?thesis
    proof (cases "t2 = ''SOL''")
      case True
      have "address i1 = ''So11111111111111111111111111111111111111112''"
        using a2 True eq by simp
      then have "remove1 (CHR ''w'') (toLowerCase t1) = ''sol''"
        using sol_address_unique t1 by simp
      with tokenKey_not_sol[OF s1 False] show ?thesis by simp
    next
      case F2: False
      from a2 F2 t1(1) have "map_of toks (remove1 (CHR ''w'') (toLowerCase t2)) = Some (address i2)"
        by auto
      with t1 eq have "remove1 (CHR ''w'') (toLowerCase t1) = remove1 (CHR ''w'') (toLowerCase t2)"
        using table_injective by simp
      from tokenKey_injective[OF s1 s2 False F2 this] show ?thesis .
    qed
  qed
qed

section \<open>Trading tools\<close>

lemma postsOf_simps [simp]:
  "postsOf [] = []"
  "postsOf (GetBalances # cs) = postsOf cs"
  "postsOf (PostTrade p # cs) = p # postsOf cs"
  "postsOf (Delay n # cs) = postsOf cs"
  "postsOf (GetTokenPrice a b c # cs) = postsOf cs"
  by (simp_all add: postsOf_def List.map_filter_simps)

lemma postsOf_append [simp]: "postsOf (xs @ ys) = postsOf xs @ postsOf ys"
  by (simp add: postsOf_def List.map_filter_def)

lemma executeTrade_guard:
  "fromSymbol ctx = toSymbol ctx \<Longrightarrow>
   TradeContext.fromSpecificChain ctx = TradeContext.toSpecificChain ctx \<Longrightarrow>
   executeTrade env ctx trace = (createErrorResponse ''invalid_trade'', trace)"
  by (simp add: executeTrade_def)

lemma executeTradeByAddress_guard:
  "toLowerCase (fromTokenAddress ctx) = toLowerCase (toTokenAddress ctx) \<Longrightarrow>
   AddressTradeContext.fromSpecificChain ctx = AddressTradeContext.toSpecificChain ctx \<Longrightarrow>
   executeTradeByAddress env ctx trace = (createErrorResponse ''invalid_trade'', trace)"
  by (simp add: executeTradeByAddress_def)

lemma executeTrade_extends:
  "\<exists>new. snd (executeTrade env ctx trace) = trace @ new \<and>
     (postsOf new = [] \<or>
      (\<exists>fromInfo toInfo p.
          \<not> (fromSymbol ctx = toSymbol ctx \<and>
             TradeContext.fromSpecificChain ctx = TradeContext.toSpecificChain ctx) \<and>
          getTokenInfo (fromSymbol ctx) (TradeContext.fromSpecificChain ctx) = Inr fromInfo \<and>
          getTokenInfo (toSymbol ctx) (TradeContext.toSpecificChain ctx) = Inr toInfo \<and>
          fromToken p = address fromInfo \<and> toToken p = address toInfo \<and>
          TradePayload.fromSpecificChain p = TokenInfo.specificChain fromInfo \<and>
          TradePayload.toSpecificChain p = TokenInfo.specificChain toInfo \<and>
          postsOf new = [p]))"
  unfolding executeTrade_def Let_def
  by (auto split: sum.splits if_splits)

lemma executeTradeByAddress_extends:
  "\<exists>new. snd (executeTradeByAddress env ctx trace) = trace @ new \<and>
     (postsOf new = [] \<or>
      (\<exists>p. \<not> (toLowerCase (fromTokenAddress ctx) = toLowerCase (toTokenAddress ctx) \<and>
             AddressTradeContext.fromSpecificChain ctx = AddressTradeContext.toSpecificChain ctx) \<and>
          fromToken p = fromTokenAddress ctx \<and> toToken p = toTokenAddress ctx \<and>
          TradePayload.fromSpecificChain p = AddressTradeContext.fromSpecificChain ctx \<and>
          TradePayload.toSpecificChain p = AddressTradeContext.toSpecificChain ctx \<and>
          postsOf new = [p]))"
  unfolding executeTradeByAddress_def Let_def
  by (auto split: sum.splits if_splits)

lemma truthy_Some: "truthy (Some c) \<longleftrightarrow> c \<noteq> []"
  by (simp add: truthy_def)

lemma truthy_cases: "truthy x \<Longrightarrow> \<exists>c. x = Some c \<and> c \<noteq> []"
  by (cases x) (simp_all add: truthy_def)

lemma executeTrade_new_posts:
  assumes "snd (executeTrade env ctx trace) = trace @ new"
  shows "drop (length trace) (snd (executeTrade env ctx trace)) = new"
  using assms by simp

lemma executeTrade_distinct_sides:
  assumes f: "truthy (TradeContext.fromSpecificChain ctx)"
    and t: "truthy (TradeContext.toSpecificChain ctx)"
    and sf: "fromSymbol ctx \<in> set SUPPORTED_TOKENS"
    and st: "toSymbol ctx \<in> set SUPPORTED_TOKENS"
  shows "\<forall>p \<in> set (postsOf (drop (length trace) (snd (executeTrade env ctx trace)))). \<not> sameSides p"
proof -
  from executeTrade_extends[of env ctx trace] obtain new where
    new: "snd (executeTrade env ctx trace) = trace @ new"
    and cases: "postsOf new = [] \<or>
      (\<exists>fromInfo toInfo p.
          \<not> (fromSymbol ctx = toSymbol ctx \<and>
             TradeContext.fromSpecificChain ctx = TradeContext.toSpecificChain ctx) \<and>
          getTokenInfo (fromSymbol ctx) (TradeContext.fromSpecificChain ctx) = Inr fromInfo \<and>
          getTokenInfo (toSymbol ctx) (TradeContext.toSpecificChain ctx) = Inr toInfo \<and>
          fromToken p = address fromInfo \<and> toToken p = address toInfo \<and>
          TradePayload.fromSpecificChain p = TokenInfo.specificChain fromInfo \<and>
          TradePayload.toSpecificChain p = TokenInfo.specificChain toInfo \<and>
          postsOf new = [p])"
    by blast
  have d: "drop (length trace) (snd (executeTrade env ctx trace)) = new" using new by simp
  from cases show ?thesis
  proof
    assume "postsOf new = []"
    then show ?thesis by (simp add: d)
  next
    assume "\<exists>fromInfo toInfo p.
          \<not> (fromSymbol ctx = toSymbol ctx \<and>
             TradeContext.fromSpecificChain ctx = TradeContext.toSpecificChain ctx) \<and>
          getTokenInfo (fromSymbol ctx) (TradeContext.fromSpecificChain ctx) = Inr fromInfo \<and>
          getTokenInfo (toSymbol ctx) (TradeContext.toSpecificChain ctx) = Inr toInfo \<and>
          fromToken p = address fromInfo \<and> toToken p = address toInfo \<and>
          TradePayload.fromSpecificChain p = TokenInfo.specificChain fromInfo \<and>
          TradePayload.toSpecificChain p = TokenInfo.specificChain toInfo \<and>
          postsOf new = [p]"
    then obtain fromInfo toInfo p where
      guard: "\<not> (fromSymbol ctx = toSymbol ctx \<and>
             TradeContext.fromSpecificChain ctx = TradeContext.toSpecificChain ctx)"
      and gf: "getTokenInfo (fromSymbol ctx) (TradeContext.fromSpecificChain ctx) = Inr fromInfo"
      and gt: "getTokenInfo (toSymbol ctx) (TradeContext.toSpecificChain ctx) = Inr toInfo"
      and p: "fromToken p = address fromInfo" "toToken p = address toInfo"
        "TradePayload.fromSpecificChain p = TokenInfo.specificChain fromInfo"
        "TradePayload.toSpecificChain p = TokenInfo.specificChain toInfo"
      and posts: "postsOf new = [p]"
      by blast
    from truthy_cases[OF f] obtain c1 where c1: "TradeContext.fromSpecificChain ctx = Some c1" "c1 \<noteq> []"
      by blast
    from truthy_cases[OF t] obtain c2 where c2: "TradeContext.toSpecificChain ctx = Some c2" "c2 \<noteq> []"
      by blast
    have ch: "TokenInfo.specificChain fromInfo = c1" "TokenInfo.specificChain toInfo = c2"
      using getTokenInfo_chain[OF c1(2)] getTokenInfo_chain[OF c2(2)] gf gt c1(1) c2(1) by simp_all
    have "\<not> sameSides p"
    proof
      assume s: "sameSides p"
      then have e: "address fromInfo = address toInfo" "c1 = c2"
        using p ch by (simp_all add: sameSides_def)
      from resolved_injective[OF sf st c1(2) _ _ e(1)] gf gt c1(1) c2(1) e(2)
      have "fromSymbol ctx = toSymbol ctx" by simp
      with guard c1 c2 e(2) show False by simp
    qed
    then show ?thesis by (simp add: d posts)
  qed
qed

lemma executeTradeByAddress_distinct_sides:
  "\<forall>p \<in> set (postsOf (drop (length trace) (snd (executeTradeByAddress env ctx trace)))).
     \<not> (toLowerCase (fromToken p) = toLowerCase (toToken p) \<and>
        TradePayload.fromSpecificChain p = TradePayload.toSpecificChain p) \<and> \<not> sameSides p"
proof -
  from executeTradeByAddress_extends[of env ctx trace] obtain new where
    new: "snd (executeTradeByAddress env ctx trace) = trace @ new"
    and cases: "postsOf new = [] \<or>
      (\<exists>p. \<not> (toLowerCase (fromTokenAddress ctx) = toLowerCase (toTokenAddress ctx) \<and>
             AddressTradeContext.fromSpecificChain ctx = AddressTradeContext.toSpecificChain ctx) \<and>
          fromToken p = fromTokenAddress ctx \<and> toToken p = toTokenAddress ctx \<and>
          TradePayload.fromSpecificChain p = AddressTradeContext.fromSpecificChain ctx \<and>
          TradePayload.toSpecificChain p = AddressTradeContext.toSpecificChain ctx \<and>
          postsOf new = [p])"
    by blast
  have d: "drop (length trace) (snd (executeTradeByAddress env ctx trace)) = new" using new by simp
  from cases show ?thesis unfolding d by (auto simp: sameSides_def)
qed

section \<open>Execution of one sub-trade\<close>



lemma primaryTargetToken_Some:
  assumes "primaryTargetToken a = Some e"
  shows "e \<in> set a" "snd e > 0" "\<forall>e' \<in> set a. snd e' \<le> snd e"
proof -
  let ?xs = "filter (\<lambda>entry. snd entry > 0) a"
  from assms obtain rest where s: "sort_key (\<lambda>entry. - snd entry) ?xs = e # rest"
    by (auto simp: primaryTargetToken_def split: list.splits)
  have "set (sort_key (\<lambda>entry. - snd entry) ?xs) = set ?xs" by simp
  with s have m: "e \<in> set ?xs" and sub: "set rest \<subseteq> set ?xs" by auto
  from m show "e \<in> set a" "snd e > 0" by simp_all
  have "sorted (map (\<lambda>entry. - snd entry) (sort_key (\<lambda>entry. - snd entry) ?xs))"
    by (rule sorted_sort_key)
  with s have le: "\<forall>x \<in> set rest. snd x \<le> snd e" by simp
  show "\<forall>e' \<in> set a. snd e' \<le> snd e"
  proof
    fix e' assume e': "e' \<in> set a"
    show "snd e' \<le> snd e"
    proof (cases "snd e' > 0")
      case True
      with e' have "e' \<in> set ?xs" by simp
      then have "e' \<in> set (e # rest)" using s by (metis set_sort)
      with le show ?thesis by auto
    next
      case False
      with \<open>snd e > 0\<close> show ?thesis by simp
    qed
  qed
qed

lemma largestOf_mem: "largestOf first others \<in> set (first # others)"
proof -
  have "foldl (\<lambda>mx current. if amount current > amount mx then current else mx) b bs \<in> set (b # bs)" for b bs
    by (induction bs arbitrary: b) (auto split: if_splits)
  then show ?thesis by (simp add: largestOf_def)
qed

lemma find_mem: "find P xs = Some x \<Longrightarrow> x \<in> set xs"
  by (induction xs) (auto split: if_splits)

lemma sellDecision_cases:
  "(tokenBalances trade balances = [] \<and> sellDecision nts trade balances config = NoBalanceFound) \<or>
   (tokenBalances trade balances \<noteq> [] \<and> symbol trade = ''USDC'' \<and>
    primaryTargetToken (Config.targetAllocation config) = None \<and>
    sellDecision nts trade balances config = SkipSameToken) \<or>
   (tokenBalances trade balances \<noteq> [] \<and>
    (\<exists>ctx b. sellDecision nts trade balances config = SellWith ctx \<and>
       fromSymbol ctx = symbol trade \<and>
       b \<in> set balances \<and>
       TradeContext.fromSpecificChain ctx = Some (BalanceEntry.specificChain b) \<and>
       TradeContext.toSpecificChain ctx = Some (preferredChain trade) \<and>
       TradeContext.amount ctx = min (differenceAmount trade) (amount b) \<and>
       ((symbol trade = ''USDC'' \<and>
         (\<exists>e. primaryTargetToken (Config.targetAllocation config) = Some e \<and> toSymbol ctx = fst e)) \<or>
        (symbol trade \<noteq> ''USDC'' \<and> toSymbol ctx = ''USDC''))))"
proof (cases "tokenBalances trade balances")
  case Nil
  then show ?thesis by (simp add: sellDecision_def)
next
  case (Cons first others)
  define best where "best = (if truthy (consolidateToChain config)
                  then (case find (\<lambda>b. BalanceEntry.specificChain b =
                                          the (consolidateToChain config))
                                  (first # others) of
                          Some b \<Rightarrow> b
                        | None \<Rightarrow> largestOf first others)
                  else largestOf first others)"
  have "best \<in> set (first # others)"
    unfolding best_def using largestOf_mem[of first others]
    by (auto split: option.splits dest: find_mem)
  then have "best \<in> set (tokenBalances trade balances)" using Cons by simp
  then have b: "best \<in> set balances" by (simp add: tokenBalances_def)
  have ne: "tokenBalances trade balances \<noteq> []" using Cons by simp
  show ?thesis
  proof (cases "primaryTargetToken (Config.targetAllocation config) \<noteq> None \<and> symbol trade = ''USDC''")
    case True
    then obtain e where e: "primaryTargetToken (Config.targetAllocation config) = Some e" by auto
    show ?thesis
      apply (rule disjI2, rule disjI2)
      using Cons True e b ne
      by (auto simp: sellDecision_def Let_def best_def[symmetric] intro!: exI[of _ best])
  next
    case False
    show ?thesis
    proof (cases "symbol trade \<noteq> ''USDC''")
      case True
      show ?thesis
        apply (rule disjI2, rule disjI2)
        using Cons True False b ne
        by (auto simp: sellDecision_def Let_def best_def[symmetric] intro!: exI[of _ best])
    next
      case F2: False
      with False have "primaryTargetToken (Config.targetAllocation config) = None"
        by (cases "primaryTargetToken (Config.targetAllocation config)") simp_all
      then show ?thesis
        using Cons F2 ne
        by (simp add: sellDecision_def Let_def)
    qed
  qed
qed


lemma buyDecision_cases:
  "buyDecision nts trade balances config pd = NoStablecoinFound \<or>
   buyDecision nts trade balances config pd = TargetUnresolved \<or>
   (\<exists>ctx b. buyDecision nts trade balances config pd = BuyWith ctx \<and>
       b \<in> set balances \<and>
       fromSymbol ctx = BalanceEntry.symbol b \<and>
       BalanceEntry.symbol b \<in> set [''USDC'', ''WETH'', ''USDT'', ''SOL''] \<and>
       toSymbol ctx = symbol trade \<and>
       TradeContext.fromSpecificChain ctx = Some (BalanceEntry.specificChain b) \<and>
       TradeContext.toSpecificChain ctx = Some (preferredChain trade)) \<or>
   (\<exists>ctx. buyDecision nts trade balances config pd = BuyByAddress ctx)"
proof -
  let ?stable = "filter (\<lambda>b. BalanceEntry.symbol b \<in> set [''USDC'', ''USDbC'', ''DAI'', ''USDT'']
                           \<and> amount b > 0) balances"
  let ?sorted = "sort_key (\<lambda>b. - stableValue pd b) ?stable"
  show ?thesis
  proof (cases ?sorted)
    case Nil
    then show ?thesis by (simp add: buyDecision_def)
  next
    case (Cons largest others)
    define best where "best = (case find (\<lambda>b. stableValue pd b \<ge> differenceValueUSD trade)
                                 (largest # others) of
                         Some b \<Rightarrow> b
                       | None \<Rightarrow> largest)"
    have "best \<in> set (largest # others)"
      unfolding best_def by (auto split: option.splits dest: find_mem)
    then have "best \<in> set ?sorted" using Cons by simp
    then have b: "best \<in> set balances" by simp
    have eq: "buyDecision nts trade balances config pd =
       (case getTokenInfo (symbol trade) (Some (preferredChain trade)) of
                Inl e \<Rightarrow> TargetUnresolved
              | Inr targetTokenInfo \<Rightarrow>
                  if BalanceEntry.symbol best \<in> set [''USDC'', ''WETH'', ''USDT'', ''SOL''] \<and>
                     BalanceEntry.symbol best \<noteq> ''USDbC''
                  then BuyWith
                         \<lparr>fromSymbol = BalanceEntry.symbol best,
                          toSymbol = symbol trade,
                          TradeContext.amount = min (differenceValueUSD trade) (stableValue pd best),
                          TradeContext.reason =
                            ''Smart rebalancing: increasing '' @ symbol trade @
                            '' allocation'' @ subTradeInfo nts trade,
                          TradeContext.slippageTolerance = maxSlippage config,
                          TradeContext.fromSpecificChain =
                            Some (BalanceEntry.specificChain best),
                          TradeContext.toSpecificChain = Some (preferredChain trade)\<rparr>
                  else BuyByAddress
                         \<lparr>fromTokenAddress = tokenAddress best,
                          toTokenAddress = address targetTokenInfo,
                          AddressTradeContext.amount = min (differenceValueUSD trade) (stableValue pd best),
                          AddressTradeContext.reason =
                            ''Smart rebalancing: increasing '' @ symbol trade @
                            '' allocation'' @ subTradeInfo nts trade,
                          AddressTradeContext.slippageTolerance = maxSlippage config,
                          AddressTradeContext.fromChain = BalanceEntry.chain best,
                          AddressTradeContext.fromSpecificChain =
                            BalanceEntry.specificChain best,
                          AddressTradeContext.toChain = TokenInfo.chain targetTokenInfo,
                          AddressTradeContext.toSpecificChain = preferredChain trade\<rparr>)"
      by (simp only: buyDecision_def Let_def Cons list.case best_def[symmetric])
    show ?thesis
    proof (cases "getTokenInfo (symbol trade) (Some (preferredChain trade))")
      case (Inl e)
      then show ?thesis by (simp add: eq)
    next
      case (Inr targetTokenInfo)
      show ?thesis
      proof (cases "BalanceEntry.symbol best \<in> set [''USDC'', ''WETH'', ''USDT'', ''SOL''] \<and>
                     BalanceEntry.symbol best \<noteq> ''USDbC''")
        case True
        show ?thesis
          apply (rule disjI2, rule disjI2, rule disjI1)
          using Inr True b by (auto simp: eq intro!: exI[of _ best])
      next
        case False
        then have "\<exists>ctx. buyDecision nts trade balances config pd = BuyByAddress ctx"
          unfolding eq Inr by (simp only: sum.case if_False) blast
        then show ?thesis by blast
      qed
    qed
  qed
qed

lemma drop_own: "drop (length trace) trace = []"
  by simp

lemma executeSingleTrade_distinct_sides:
  assumes wf1: "symbol trade \<in> set SUPPORTED_TOKENS"
    and wf2: "fst ` set (Config.targetAllocation config) \<subseteq> set SUPPORTED_TOKENS"
    and wf3: "preferredChain trade \<noteq> []"
    and wf4: "\<forall>b \<in> set balances. BalanceEntry.specificChain b \<noteq> []"
  shows "\<forall>p \<in> set (postsOf (drop (length trace)
            (snd (executeSingleTrade env nts trade tradeType balances config pd trace)))).
          \<not> sameSides p"
proof (cases tradeType)
  case Sell
  from sellDecision_cases[of trade balances nts config]
  consider "sellDecision nts trade balances config = NoBalanceFound"
    | "sellDecision nts trade balances config = SkipSameToken"
    | ctx b where "sellDecision nts trade balances config = SellWith ctx"
       "fromSymbol ctx = symbol trade" "b \<in> set balances"
       "TradeContext.fromSpecificChain ctx = Some (BalanceEntry.specificChain b)"
       "TradeContext.toSpecificChain ctx = Some (preferredChain trade)"
       "(symbol trade = ''USDC'' \<and>
         (\<exists>e. primaryTargetToken (Config.targetAllocation config) = Some e \<and> toSymbol ctx = fst e)) \<or>
        (symbol trade \<noteq> ''USDC'' \<and> toSymbol ctx = ''USDC'')"
    by blast
  then show ?thesis
  proof cases
    case 1
    then show ?thesis using Sell by (simp add: executeSingleTrade_def)
  next
    case 2
    then show ?thesis using Sell by (simp add: executeSingleTrade_def)
  next
    case 3
    have f: "truthy (TradeContext.fromSpecificChain ctx)" using 3(3,4) wf4 by (simp add: truthy_def)
    have t: "truthy (TradeContext.toSpecificChain ctx)" using 3(5) wf3 by (simp add: truthy_def)
    have sf: "fromSymbol ctx \<in> set SUPPORTED_TOKENS" using 3(2) wf1 by simp
    have st: "toSymbol ctx \<in> set SUPPORTED_TOKENS"
    proof -
      from 3(6) show ?thesis
      proof
        assume "symbol trade = ''USDC'' \<and>
         (\<exists>e. primaryTargetToken (Config.targetAllocation config) = Some e \<and> toSymbol ctx = fst e)"
        then obtain e where "primaryTargetToken (Config.targetAllocation config) = Some e"
          "toSymbol ctx = fst e" by blast
        with primaryTargetToken_Some(1)[of "Config.targetAllocation config" e] wf2
        show ?thesis by auto
      next
        assume "symbol trade \<noteq> ''USDC'' \<and> toSymbol ctx = ''USDC''"
        then show ?thesis by (simp add: SUPPORTED_TOKENS_def)
      qed
    qed
    from executeTrade_distinct_sides[OF f t sf st, of trace env]
    show ?thesis using Sell 3(1) by (simp add: executeSingleTrade_def Let_def)
  qed
next
  case Buy
  from buyDecision_cases[of nts trade balances config pd]
  consider "buyDecision nts trade balances config pd = NoStablecoinFound"
    | "buyDecision nts trade balances config pd = TargetUnresolved"
    | ctx b where "buyDecision nts trade balances config pd = BuyWith ctx"
       "b \<in> set balances" "fromSymbol ctx = BalanceEntry.symbol b"
       "BalanceEntry.symbol b \<in> set [''USDC'', ''WETH'', ''USDT'', ''SOL'']"
       "toSymbol ctx = symbol trade"
       "TradeContext.fromSpecificChain ctx = Some (BalanceEntry.specificChain b)"
       "TradeContext.toSpecificChain ctx = Some (preferredChain trade)"
    | ctx where "buyDecision nts trade balances config pd = BuyByAddress ctx"
    by blast
  then show ?thesis
  proof cases
    case 1
    then show ?thesis using Buy by (simp add: executeSingleTrade_def)
  next
    case 2
    then show ?thesis using Buy by (simp add: executeSingleTrade_def)
  next
    case 3
    have f: "truthy (TradeContext.fromSpecificChain ctx)" using 3(2,6) wf4 by (simp add: truthy_def)
    have t: "truthy (TradeContext.toSpecificChain ctx)" using 3(7) wf3 by (simp add: truthy_def)
    have sf: "fromSymbol ctx \<in> set SUPPORTED_TOKENS" using 3(3,4) by (simp add: SUPPORTED_TOKENS_def)
    have st: "toSymbol ctx \<in> set SUPPORTED_TOKENS" using 3(5) wf1 by simp
    from executeTrade_distinct_sides[OF f t sf st, of trace env]
    show ?thesis using Buy 3(1) by (simp add: executeSingleTrade_def Let_def)
  next
    case 4
    from executeTradeByAddress_distinct_sides[of trace env ctx]
    show ?thesis using Buy 4 by (simp add: executeSingleTrade_def Let_def)
  qed
qed

lemmas registry_defs = getTokenInfo_def SPESIFIC_CHAIN_TOKENS_def CHAIN_TYPE_MAP_def
  DEFAULT_CHAIN_FOR_SYMBOL_def orElse_def truthy_def toLowerCase_def lowerChar_def

lemma ex_primary: "primaryTargetToken (Config.targetAllocation ex_config) = Some (''USDT'', 1)"
  by (simp add: primaryTargetToken_def ex_config_def)


lemma weth_tokens:
  "getTokenInfo ''WETH'' (Some ''eth'') =
     Inr \<lparr>address = ''0xC02aaA39b223FE8D0A0e5C4F27eAD9083C756Cc2'', TokenInfo.chain = ''evm'',
          TokenInfo.specificChain = ''eth'', TokenInfo.symbol = ''WETH''\<rparr>"
  "getTokenInfo ''USDC'' (Some ''eth'') =
     Inr \<lparr>address = ''0xA0b86991c6218b36c1d19D4a2e9Eb0cE3606eB48'', TokenInfo.chain = ''evm'',
          TokenInfo.specificChain = ''eth'', TokenInfo.symbol = ''USDC''\<rparr>"
  by (simp_all add: registry_defs)










lemma usdc_default_token:
  "getTokenInfo ''USDC'' None =
     Inr \<lparr>address = ''0xA0b86991c6218b36c1d19D4a2e9Eb0cE3606eB48'', TokenInfo.chain = ''evm'',
          TokenInfo.specificChain = ''eth'', TokenInfo.symbol = ''USDC''\<rparr>"
  by (simp add: registry_defs)

lemma usdc_found:
  "findBalanceForToken ex_balances
     \<lparr>address = ''0xA0b86991c6218b36c1d19D4a2e9Eb0cE3606eB48'', TokenInfo.chain = ''evm'',
      TokenInfo.specificChain = ''eth'', TokenInfo.symbol = ''USDC''\<rparr> = Some (hd ex_balances)"
  by (simp add: findBalanceForToken_def ex_balances_def)

text \<open>
  C8. The guard of \<open>executeTrade\<close> compares the two symbols and the two chains as they
  were passed. A request for USDC into USDC that leaves the source chain out and names
  \<open>eth\<close> as the destination passes it; both sides then resolve to USDC on \<open>eth\<close>, and
  the trade is sent to the exchange with the same token and chain on both sides.
\<close>

theorem executeTrade_self_trade_issued:
  "executeTrade usdc_env default_chain_request [] =
     (\<lparr>success = True, status = ''executed''\<rparr>, [GetBalances, PostTrade self_payload]) \<and>
   sameSides self_payload"
proof -
  have run: "executeTrade usdc_env default_chain_request [] =
     (\<lparr>success = True, status = ''executed''\<rparr>, [GetBalances, PostTrade self_payload])"
    by (simp add: executeTrade_def default_chain_request_def usdc_default_token weth_tokens
          usdc_found usdc_env_def executedResult_def self_payload_def Let_def)
       (simp add: ex_balances_def)
  have same: "sameSides self_payload"
    by (simp add: sameSides_def self_payload_def)
  from run same show ?thesis by (rule conjI)
qed

section \<open>Rebalancing loop\<close>

lemma getOr0_Nil: "getOr0 [] k = 0"
  by (simp add: getOr0_def)

lemma getOr0_Cons: "getOr0 ((k', v) # xs) k = (if k' = k then v else getOr0 xs k)"
  by (simp add: getOr0_def)

lemmas getOr0_eval = getOr0_Nil getOr0_Cons

lemma ex_config_fields:
  "Config.targetAllocation ex_config = [(''USDC'', 0), (''WETH'', 0), (''USDT'', 1), (''SOL'', 0)]"
  "consolidateToChain ex_config = None"
  "minTradeValueUSD ex_config = 0.01"
  "maxSlippage ex_config = ''2''"
  by (simp_all add: ex_config_def)

lemma ex_prices_at:
  "getOr0 ex_prices ''USDC'' = 1" "getOr0 ex_prices ''WETH'' = 2000"
  "getOr0 ex_prices ''USDT'' = 1" "getOr0 ex_prices ''SOL'' = 150"
  by (simp_all add: ex_prices_def getOr0_eval)

lemma dust_group: "groupBalances dust_balances = [(''WETH'', 0.000004), (''SOL'', 0.00002)]"
  by (simp add: groupBalances_def dust_balances_def groupStep_def normalizedSymbol_def
        getOr0_eval)

lemma dust_total: "iterationTotalUSD ex_prices dust_balances = 0.011"
  by (simp add: iterationTotalUSD_def dust_group ex_prices_at)

lemma dust_percents:
  "iterationPercents ex_config ex_prices dust_balances =
     [(''USDC'', 0), (''WETH'', 8/11), (''USDT'', 0), (''SOL'', 3/11)]"
  by (simp add: iterationPercents_def dust_total dust_group ex_config_fields ex_prices_at
        getOr0_eval)

lemma dust_drift:
  "iterationDrift ex_config ex_prices dust_balances =
     ([(''USDC'', 0), (''WETH'', 8/11), (''USDT'', 1), (''SOL'', 3/11)], 1)"
  by (simp add: iterationDrift_def dust_percents driftLoop_def ex_config_fields getOr0_eval
        Let_def)

lemma dust_plan:
  "iterationRebalancingPlan ex_config ex_prices dust_balances =
     [\<lparr>action = Buy, symbol = ''USDT'', currentAmount = 0, targetAmount = 0.011,
       differenceAmount = 0.011, differenceValueUSD = 0.011, priority = 100,
       preferredChain = ''eth''\<rparr>]"
  by (simp add: iterationRebalancingPlan_def iterationTargetEntry_def
        iterationLiquidationEntry_def dust_total dust_group dust_drift ex_config_fields
        ex_prices_at getOr0_eval List.map_filter_def orElse_def truthy_def Let_def)

lemma largest_fold:
  "foldl (\<lambda>mx current. if v mx > v current then mx else current) a xs \<in> set (a # xs) \<and>
   (\<forall>b \<in> set (a # xs).
      (v b :: real) \<le> v (foldl (\<lambda>mx current. if v mx > v current then mx else current) a xs))"
proof (induction xs arbitrary: a)
  case Nil
  show ?case by simp
next
  case (Cons x xs)
  let ?f = "\<lambda>mx current. if v mx > v current then mx else current"
  let ?a' = "?f a x"
  from Cons.IH[of ?a'] have m: "foldl ?f ?a' xs \<in> set (?a' # xs)"
    and le: "\<forall>b \<in> set (?a' # xs). v b \<le> v (foldl ?f ?a' xs)" by blast+
  have a': "?a' = a \<or> ?a' = x" by simp
  have va: "v a \<le> v ?a'" "v x \<le> v ?a'" by simp_all
  from le have top: "v ?a' \<le> v (foldl ?f ?a' xs)" by simp
  have mem: "foldl ?f a (x # xs) \<in> set (a # x # xs)"
    using m a' by auto
  have bound: "\<forall>b \<in> set (a # x # xs). v b \<le> v (foldl ?f a (x # xs))"
  proof
    fix b assume "b \<in> set (a # x # xs)"
    then consider "b = a" | "b = x" | "b \<in> set xs" by auto
    then show "v b \<le> v (foldl ?f a (x # xs))"
    proof cases
      case 1 with va(1) top show ?thesis by simp
    next
      case 2 with va(2) top show ?thesis by simp
    next
      case 3 with le show ?thesis by simp
    qed
  qed
  from mem bound show ?case by blast
qed

lemma tokenToSellOf_largest:
  assumes "tokens \<noteq> []"
  shows "tokenToSellOf prices tokens \<in> set tokens"
    and "\<forall>b \<in> set tokens. holdingValue prices b \<le> holdingValue prices (tokenToSellOf prices tokens)"
proof -
  from assms have t: "hd tokens # tl tokens = tokens" by simp
  from largest_fold[of "holdingValue prices" "hd tokens" "tl tokens"] t
  show "tokenToSellOf prices tokens \<in> set tokens"
    and "\<forall>b \<in> set tokens. holdingValue prices b \<le> holdingValue prices (tokenToSellOf prices tokens)"
    by (simp_all add: tokenToSellOf_def)
qed

lemma only_buys:
  assumes "plan \<noteq> []" "\<forall>t \<in> set plan. action t = Buy"
  shows "filter (\<lambda>t. action t = Buy) plan \<noteq> []" "filter (\<lambda>t. action t = Sell) plan = []"
proof -
  from assms obtain t where "t \<in> set plan" "action t = Buy" by (cases plan) auto
  then show "filter (\<lambda>t. action t = Buy) plan \<noteq> []" by (auto simp: filter_empty_conv)
  from assms(2) show "filter (\<lambda>t. action t = Sell) plan = []" by (auto simp: filter_empty_conv)
qed

lemma rebalancingIteration_bootstrap:
  assumes "forceFlag st \<or> snd (iterationDrift config (pd_prices pd) (fst (getPortfolio env (calls st)))) > convergenceThreshold"
    and "iterationRebalancingPlan config (pd_prices pd) (fst (getPortfolio env (calls st))) \<noteq> []"
    and "\<forall>t \<in> set (iterationRebalancingPlan config (pd_prices pd) (fst (getPortfolio env (calls st)))). action t = Buy"
    and "\<forall>b \<in> set (fst (getPortfolio env (calls st))).
           BalanceEntry.symbol b \<in> set stablecoinSymbols \<longrightarrow> amount b \<le> 0"
    and "nonTargetTokens config (fst (getPortfolio env (calls st))) \<noteq> []"
  shows "rebalancingIteration env nts config pd st =
     Continue (bootstrapSale env config (pd_prices pd) (fst (getPortfolio env (calls st)))
                 (st\<lparr>calls := snd (getPortfolio env (calls st))\<rparr>))"
proof -
  have s: "currentStablecoins (fst (getPortfolio env (calls st))) = []"
    using assms(4) by (auto simp: currentStablecoins_def filter_empty_conv)
  from assms(1) have c: "\<not> (\<not> forceFlag st \<and>
      snd (iterationDrift config (pd_prices pd) (fst (getPortfolio env (calls st)))) \<le> convergenceThreshold)"
    by auto
  show ?thesis
    unfolding rebalancingIteration_def Let_def
    using c assms(2,5) only_buys[OF assms(2,3)] s
    by (simp only: if_False if_True simp_thms)
qed

lemma bootstrapSale_fields:
  "calls (bootstrapSale env config prices balances st) =
     snd (executeTrade env (bootstrapContext config (tokenToSellOf prices (nonTargetTokens config balances)))
            (calls st)) @ [Delay 3000]"
  "allRebalancingResults (bootstrapSale env config prices balances st) =
     (if success (fst (executeTrade env
            (bootstrapContext config (tokenToSellOf prices (nonTargetTokens config balances))) (calls st)))
      then allRebalancingResults st @
           [fst (executeTrade env
              (bootstrapContext config (tokenToSellOf prices (nonTargetTokens config balances))) (calls st))]
      else allRebalancingResults st)"
  by (simp_all add: bootstrapSale_def Let_def)

lemma rebalancingLoop_continue:
  assumes "rebalancingIteration env nts config pd st = Continue st'"
  shows "i < maxIterations \<Longrightarrow>
           rebalancingLoop env nts config pd i st = rebalancingLoop env nts config pd (i + 1) st'"
    and "rebalancingLoop env nts config pd (maxIterations - 1) st = (maxIterations, st')"
proof -
  show "i < maxIterations \<Longrightarrow>
           rebalancingLoop env nts config pd i st = rebalancingLoop env nts config pd (i + 1) st'"
    by (subst rebalancingLoop.simps) (simp add: assms)
  have "rebalancingLoop env nts config pd (maxIterations - 1) st =
        rebalancingLoop env nts config pd maxIterations st'"
    by (subst rebalancingLoop.simps) (simp add: assms maxIterations_def)
  also have "\<dots> = (maxIterations, st')"
    by (subst rebalancingLoop.simps) simp
  finally show "rebalancingLoop env nts config pd (maxIterations - 1) st = (maxIterations, st')" .
qed

text \<open>
  C6, as amended. In a pass that is not stopped by convergence, whose plan is not empty
  and has only buys, while no stablecoin is held with a positive amount and some holding
  has no target weight and is not a stablecoin: the engine picks among those holdings
  one of the largest USD value, calls \<open>executeTrade\<close> to sell its whole amount into
  USDC on its own chain, keeps the result if the sale succeeded, waits 3000 ms and goes
  on to the next pass. The pass counts toward the cap like any other: from \<open>i\<close>
  passes the loop goes on from \<open>i + 1\<close>, and a bootstrap pass that is the last one
  allowed ends the loop.
\<close>

theorem bootstrap_pass_contract:
  "let balances = fst (getPortfolio env (calls st));
       refreshed = snd (getPortfolio env (calls st));
       prices = pd_prices pd;
       plan = iterationRebalancingPlan config prices balances;
       tokenToSell = tokenToSellOf prices (nonTargetTokens config balances);
       sold = executeTrade env (bootstrapContext config tokenToSell) refreshed
   in (forceFlag st \<or> snd (iterationDrift config prices balances) > convergenceThreshold) \<and>
      plan \<noteq> [] \<and> (\<forall>t \<in> set plan. action t = Buy) \<and>
      (\<forall>b \<in> set balances. BalanceEntry.symbol b \<in> set stablecoinSymbols \<longrightarrow> amount b \<le> 0) \<and>
      nonTargetTokens config balances \<noteq> [] \<longrightarrow>
      tokenToSell \<in> set (nonTargetTokens config balances) \<and>
      (\<forall>b \<in> set (nonTargetTokens config balances).
          holdingValue prices b \<le> holdingValue prices tokenToSell) \<and>
      fromSymbol (bootstrapContext config tokenToSell) = BalanceEntry.symbol tokenToSell \<and>
      toSymbol (bootstrapContext config tokenToSell) = ''USDC'' \<and>
      TradeContext.amount (bootstrapContext config tokenToSell) = amount tokenToSell \<and>
      TradeContext.fromSpecificChain (bootstrapContext config tokenToSell) =
        Some (BalanceEntry.specificChain tokenToSell) \<and>
      TradeContext.toSpecificChain (bootstrapContext config tokenToSell) =
        Some (BalanceEntry.specificChain tokenToSell) \<and>
      (\<exists>st'. rebalancingIteration env nts config pd st = Continue st' \<and>
         calls st' = snd sold @ [Delay 3000] \<and>
         allRebalancingResults st' =
           (if success (fst sold) then allRebalancingResults st @ [fst sold]
            else allRebalancingResults st) \<and>
         (i < maxIterations \<longrightarrow>
            rebalancingLoop env nts config pd i st =
            rebalancingLoop env nts config pd (i + 1) st') \<and>
         rebalancingLoop env nts config pd (maxIterations - 1) st = (maxIterations, st'))"
proof -
  define balances where "balances = fst (getPortfolio env (calls st))"
  define refreshed where "refreshed = snd (getPortfolio env (calls st))"
  define tokenToSell where
    "tokenToSell = tokenToSellOf (pd_prices pd) (nonTargetTokens config balances)"
  define sold where "sold = executeTrade env (bootstrapContext config tokenToSell) refreshed"
  define st' where
    "st' = bootstrapSale env config (pd_prices pd) balances (st\<lparr>calls := refreshed\<rparr>)"
  have main: "tokenToSell \<in> set (nonTargetTokens config balances) \<and>
      (\<forall>b \<in> set (nonTargetTokens config balances).
          holdingValue (pd_prices pd) b \<le> holdingValue (pd_prices pd) tokenToSell) \<and>
      fromSymbol (bootstrapContext config tokenToSell) = BalanceEntry.symbol tokenToSell \<and>
      toSymbol (bootstrapContext config tokenToSell) = ''USDC'' \<and>
      TradeContext.amount (bootstrapContext config tokenToSell) = amount tokenToSell \<and>
      TradeContext.fromSpecificChain (bootstrapContext config tokenToSell) =
        Some (BalanceEntry.specificChain tokenToSell) \<and>
      TradeContext.toSpecificChain (bootstrapContext config tokenToSell) =
        Some (BalanceEntry.specificChain tokenToSell) \<and>
      (\<exists>st'. rebalancingIteration env nts config pd st = Continue st' \<and>
         calls st' = snd sold @ [Delay 3000] \<and>
         allRebalancingResults st' =
           (if success (fst sold) then allRebalancingResults st @ [fst sold]
            else allRebalancingResults st) \<and>
         (i < maxIterations \<longrightarrow>
            rebalancingLoop env nts config pd i st =
            rebalancingLoop env nts config pd (i + 1) st') \<and>
         rebalancingLoop env nts config pd (maxIterations - 1) st = (maxIterations, st'))"
    if h: "(forceFlag st \<or> snd (iterationDrift config (pd_prices pd) balances) > convergenceThreshold) \<and>
      iterationRebalancingPlan config (pd_prices pd) balances \<noteq> [] \<and>
      (\<forall>t \<in> set (iterationRebalancingPlan config (pd_prices pd) balances). action t = Buy) \<and>
      (\<forall>b \<in> set balances. BalanceEntry.symbol b \<in> set stablecoinSymbols \<longrightarrow> amount b \<le> 0) \<and>
      nonTargetTokens config balances \<noteq> []"
  proof -
    from h have ne: "nonTargetTokens config balances \<noteq> []" by blast
    have it: "rebalancingIteration env nts config pd st = Continue st'"
      unfolding st'_def balances_def refreshed_def
      by (rule rebalancingIteration_bootstrap) (use h in \<open>simp_all add: balances_def\<close>)
    have c: "calls st' = snd sold @ [Delay 3000]"
      by (simp add: st'_def sold_def tokenToSell_def bootstrapSale_fields)
    have r: "allRebalancingResults st' =
           (if success (fst sold) then allRebalancingResults st @ [fst sold]
            else allRebalancingResults st)"
      by (simp add: st'_def sold_def tokenToSell_def bootstrapSale_fields)
    have l1: "i < maxIterations \<longrightarrow>
            rebalancingLoop env nts config pd i st =
            rebalancingLoop env nts config pd (i + 1) st'"
      using rebalancingLoop_continue(1)[OF it] by blast
    have l2: "rebalancingLoop env nts config pd (maxIterations - 1) st = (maxIterations, st')"
      by (rule rebalancingLoop_continue(2)[OF it])
    have ex: "\<exists>st'. rebalancingIteration env nts config pd st = Continue st' \<and>
         calls st' = snd sold @ [Delay 3000] \<and>
         allRebalancingResults st' =
           (if success (fst sold) then allRebalancingResults st @ [fst sold]
            else allRebalancingResults st) \<and>
         (i < maxIterations \<longrightarrow>
            rebalancingLoop env nts config pd i st =
            rebalancingLoop env nts config pd (i + 1) st') \<and>
         rebalancingLoop env nts config pd (maxIterations - 1) st = (maxIterations, st')"
      using it c r l1 l2 by blast
    have ctx: "fromSymbol (bootstrapContext config tokenToSell) = BalanceEntry.symbol tokenToSell"
      "toSymbol (bootstrapContext config tokenToSell) = ''USDC''"
      "TradeContext.amount (bootstrapContext config tokenToSell) = amount tokenToSell"
      "TradeContext.fromSpecificChain (bootstrapContext config tokenToSell) =
        Some (BalanceEntry.specificChain tokenToSell)"
      "TradeContext.toSpecificChain (bootstrapContext config tokenToSell) =
        Some (BalanceEntry.specificChain tokenToSell)"
      by (simp_all add: bootstrapContext_def)
    from tokenToSellOf_largest[OF ne, of "pd_prices pd"] ctx ex
    show ?thesis unfolding tokenToSell_def[symmetric] by (intro conjI)
  qed
  show ?thesis
    unfolding Let_def
    using main
    unfolding balances_def refreshed_def tokenToSell_def sold_def
    by blast
qed

lemma dust_portfolio:
  "getPortfolio dust_env trace = (dust_balances, trace @ dust_refresh)"
  "getPortfolio refusing_env trace = (dust_balances, trace @ dust_refresh)"
  by (simp_all add: getPortfolio_def dust_env_def refusing_env_def dust_balances_def
        dust_refresh_def)

lemma dust_nonTarget: "nonTargetTokens ex_config dust_balances = dust_balances"
  by (simp add: nonTargetTokens_def dust_balances_def ex_config_fields getOr0_eval
        normalizedSymbol_def stablecoinSymbols_def)

lemma dust_ne: "dust_balances \<noteq> []"
  by (simp add: dust_balances_def)

lemma dust_stable: "currentStablecoins dust_balances = []"
  by (simp add: currentStablecoins_def dust_balances_def stablecoinSymbols_def)

lemma dust_tokenToSell: "tokenToSellOf ex_prices dust_balances = hd dust_balances"
  by (simp add: tokenToSellOf_def holdingValue_def dust_balances_def ex_prices_at
        normalizedSymbol_def)

lemma dust_context:
  "bootstrapContext ex_config (hd dust_balances) =
     \<lparr>fromSymbol = ''WETH'', toSymbol = ''USDC'', TradeContext.amount = 0.000004,
      TradeContext.reason = ''Converting non-target WETH to USDC for rebalancing'',
      TradeContext.slippageTolerance = ''2'',
      TradeContext.fromSpecificChain = Some ''eth'',
      TradeContext.toSpecificChain = Some ''eth''\<rparr>"
  by (simp add: bootstrapContext_def dust_balances_def ex_config_fields)

lemma dust_found:
  "findBalanceForToken dust_balances
     \<lparr>address = ''0xC02aaA39b223FE8D0A0e5C4F27eAD9083C756Cc2'', TokenInfo.chain = ''evm'',
      TokenInfo.specificChain = ''eth'', TokenInfo.symbol = ''WETH''\<rparr> = Some (hd dust_balances)"
  by (simp add: findBalanceForToken_def dust_balances_def)

lemma dust_trade:
  "executeTrade dust_env (bootstrapContext ex_config (hd dust_balances)) trace =
     (\<lparr>success = True, status = ''executed''\<rparr>, trace @ [GetBalances, PostTrade dust_payload])"
  "executeTrade refusing_env (bootstrapContext ex_config (hd dust_balances)) trace =
     (\<lparr>success = False, status = ''bad_request''\<rparr>, trace @ [GetBalances, PostTrade dust_payload])"
  by (simp_all add: executeTrade_def dust_context weth_tokens dust_found dust_env_def
        refusing_env_def executedResult_def httpErrorResponse_def createErrorResponse_def
        dust_payload_def Let_def)
     (simp_all add: dust_balances_def)

lemma dust_sale:
  "bootstrapSale dust_env ex_config ex_prices dust_balances
     (start_state\<lparr>calls := dust_refresh\<rparr>) = dust_after"
  "bootstrapSale refusing_env ex_config ex_prices dust_balances
     (start_state\<lparr>calls := dust_refresh\<rparr>) = refused_after"
  by (simp_all add: bootstrapSale_def dust_nonTarget dust_tokenToSell dust_trade Let_def
        start_state_def dust_after_def refused_after_def ex_prices_at)
     (simp_all add: dust_balances_def ex_prices_at)

lemma dust_iteration:
  "rebalancingIteration dust_env print_two ex_config ex_price_data start_state = Continue dust_after"
  "rebalancingIteration refusing_env print_two ex_config ex_price_data start_state =
     Continue refused_after"
proof -
  have p: "pd_prices ex_price_data = ex_prices" by (simp add: ex_price_data_def)
  have c: "calls start_state = []" "\<not> forceFlag start_state" by (simp_all add: start_state_def)
  have d: "\<not> snd (iterationDrift ex_config ex_prices dust_balances) \<le> convergenceThreshold"
    by (simp add: dust_drift convergenceThreshold_def)
  show "rebalancingIteration dust_env print_two ex_config ex_price_data start_state = Continue dust_after"
    unfolding rebalancingIteration_def Let_def p c dust_portfolio
    using d by (simp add: dust_plan dust_stable dust_nonTarget dust_ne dust_sale)
  show "rebalancingIteration refusing_env print_two ex_config ex_price_data start_state =
     Continue refused_after"
    unfolding rebalancingIteration_def Let_def p c dust_portfolio
    using d by (simp add: dust_plan dust_stable dust_nonTarget dust_ne dust_sale)
qed

theorem bootstrap_pass_contract_witness:
  "rebalancingIteration dust_env print_two ex_config ex_price_data start_state = Continue dust_after \<and>
   tokenToSellOf ex_prices (nonTargetTokens ex_config dust_balances) = hd dust_balances \<and>
   calls dust_after = dust_refresh @ [GetBalances, PostTrade dust_payload, Delay 3000] \<and>
   allRebalancingResults dust_after = [\<lparr>success = True, status = ''executed''\<rparr>] \<and>
   rebalancingLoop dust_env print_two ex_config ex_price_data 9 start_state = (10, dust_after)"
proof -
  have p: "pd_prices ex_price_data = ex_prices" by (simp add: ex_price_data_def)
  have c: "calls start_state = []" by (simp add: start_state_def)
  have h: "(forceFlag start_state \<or>
       snd (iterationDrift ex_config ex_prices dust_balances) > convergenceThreshold) \<and>
      iterationRebalancingPlan ex_config ex_prices dust_balances \<noteq> [] \<and>
      (\<forall>t \<in> set (iterationRebalancingPlan ex_config ex_prices dust_balances). action t = Buy) \<and>
      (\<forall>b \<in> set dust_balances. BalanceEntry.symbol b \<in> set stablecoinSymbols \<longrightarrow> amount b \<le> 0) \<and>
      nonTargetTokens ex_config dust_balances \<noteq> []"
    by (simp add: dust_drift convergenceThreshold_def dust_plan dust_nonTarget dust_ne)
       (simp add: dust_balances_def stablecoinSymbols_def)
  from bootstrap_pass_contract[where env = dust_env and st = start_state and pd = ex_price_data
      and config = ex_config and nts = print_two and i = 0] h
  obtain st' where
    "rebalancingIteration dust_env print_two ex_config ex_price_data start_state = Continue st'"
    "rebalancingLoop dust_env print_two ex_config ex_price_data (maxIterations - 1) start_state =
       (maxIterations, st')"
    unfolding Let_def p c dust_portfolio by auto
  with dust_iteration(1) have
    "rebalancingLoop dust_env print_two ex_config ex_price_data 9 start_state = (10, dust_after)"
    by (simp add: maxIterations_def)
  with dust_iteration(1) show ?thesis
    by (simp add: dust_nonTarget dust_tokenToSell dust_after_def)
qed

text \<open>
  C6 as stated fails where the exchange refuses the bootstrap sale, on a run that has made
  nine passes: the result of the sale is not appended, and the bootstrap pass is the tenth
  pass, after which the loop ends without a full trade pass.
\<close>

theorem bootstrap_pass_counterexample:
  "rebalancingIteration refusing_env print_two ex_config ex_price_data start_state =
     Continue refused_after \<and>
   postsOf (calls refused_after) = [dust_payload] \<and>
   allRebalancingResults refused_after = [] \<and>
   rebalancingLoop refusing_env print_two ex_config ex_price_data 9 start_state =
     (10, refused_after)"
proof -
  have l: "rebalancingLoop refusing_env print_two ex_config ex_price_data 9 start_state =
     (10, refused_after)"
    using rebalancingLoop_continue(2)[OF dust_iteration(2)] by (simp add: maxIterations_def)
  have q: "postsOf (calls refused_after) = [dust_payload]"
    by (simp add: refused_after_def dust_refresh_def)
  have r: "allRebalancingResults refused_after = []"
    by (simp add: refused_after_def)
  from dust_iteration(2) q r l show ?thesis by (intro conjI)
qed

lemma forced_config_fields:
  "Config.targetAllocation forced_config = [(''USDC'', 0), (''WETH'', 0), (''USDT'', 1), (''SOL'', 0)]"
  "consolidateToChain forced_config = None"
  "minTradeValueUSD forced_config = 0.01"
  "maxSlippage forced_config = ''2''"
  "forceRebalance forced_config"
  by (simp_all add: forced_config_def ex_config_def)

lemma settled_group: "groupBalances settled_balances = [(''USDT'', 1000), (''WETH'', 0.001)]"
  by (simp add: groupBalances_def settled_balances_def groupStep_def normalizedSymbol_def
        getOr0_eval)

lemma settled_total: "iterationTotalUSD ex_prices settled_balances = 1002"
  by (simp add: iterationTotalUSD_def settled_group ex_prices_at)

lemma settled_percents:
  "iterationPercents forced_config ex_prices settled_balances =
     [(''USDC'', 0), (''WETH'', 1/501), (''USDT'', 500/501), (''SOL'', 0)]"
  by (simp add: iterationPercents_def settled_total settled_group forced_config_fields
        ex_prices_at getOr0_eval)

lemma settled_drift:
  "iterationDrift forced_config ex_prices settled_balances =
     ([(''USDC'', 0), (''WETH'', 1/501), (''USDT'', 1/501), (''SOL'', 0)], 1/501)"
  by (simp add: iterationDrift_def settled_percents driftLoop_def forced_config_fields
        getOr0_eval Let_def)

lemma settled_plan:
  "iterationRebalancingPlan forced_config ex_prices settled_balances =
     [settled_sell (100 / 501), settled_buy, settled_sell 50]"
  by (simp add: iterationRebalancingPlan_def iterationTargetEntry_def
        iterationLiquidationEntry_def settled_total settled_group settled_drift
        forced_config_fields ex_prices_at getOr0_eval List.map_filter_def orElse_def
        truthy_def Let_def settled_sell_def settled_buy_def)

lemma settled_sorted:
  "sortByPriority [settled_sell (100 / 501), settled_buy, settled_sell 50] =
     [settled_sell 50, settled_sell (100 / 501), settled_buy]"
  by (simp add: sortByPriority_def settled_sell_def settled_buy_def)

lemma forced_same:
  "Config.targetAllocation forced_config = Config.targetAllocation ex_config"
  "consolidateToChain forced_config = consolidateToChain ex_config"
  "minTradeValueUSD forced_config = minTradeValueUSD ex_config"
  "maxSlippage forced_config = maxSlippage ex_config"
  by (simp_all add: forced_config_def)

lemma forced_drift: "iterationDrift forced_config p b = iterationDrift ex_config p b"
  by (simp add: iterationDrift_def iterationPercents_def forced_same)

lemma forced_target_entry:
  "iterationTargetEntry forced_config p b = iterationTargetEntry ex_config p b"
  unfolding iterationTargetEntry_def forced_drift forced_same by (rule refl)

lemma forced_liquidation_entry:
  "iterationLiquidationEntry forced_config p = iterationLiquidationEntry ex_config p"
  unfolding iterationLiquidationEntry_def forced_same by (rule refl)

lemma forced_first_pass:
  "iterationDrift forced_config p b = iterationDrift ex_config p b"
  "iterationRebalancingPlan forced_config p b = iterationRebalancingPlan ex_config p b"
  "nonTargetTokens forced_config b = nonTargetTokens ex_config b"
  "bootstrapContext forced_config t = bootstrapContext ex_config t"
  by (simp_all add: forced_drift forced_target_entry forced_liquidation_entry
        iterationRebalancingPlan_def nonTargetTokens_def bootstrapContext_def forced_same)

lemma deposit_portfolio:
  "postsOf trace = [] \<Longrightarrow> getPortfolio deposit_env trace = (dust_balances, trace @ dust_refresh)"
  "postsOf trace \<noteq> [] \<Longrightarrow>
     getPortfolio deposit_env trace = (settled_balances, trace @ settled_refresh)"
  by (simp_all add: getPortfolio_def deposit_env_def dust_balances_def settled_balances_def
        dust_refresh_def settled_refresh_def)

lemma deposit_bootstrap_trade:
  "postsOf trace = [] \<Longrightarrow>
   executeTrade deposit_env (bootstrapContext ex_config (hd dust_balances)) trace =
     (\<lparr>success = True, status = ''executed''\<rparr>, trace @ [GetBalances, PostTrade dust_payload])"
  by (simp add: executeTrade_def dust_context weth_tokens dust_found deposit_env_def
        executedResult_def dust_payload_def Let_def)
     (simp add: dust_balances_def)

lemma deposit_sale:
  "bootstrapSale deposit_env forced_config ex_prices dust_balances
     (forced_start\<lparr>calls := dust_refresh\<rparr>) = after_bootstrap"
proof -
  have q: "postsOf dust_refresh = []" by (simp add: dust_refresh_def)
  show ?thesis
    by (simp add: bootstrapSale_def forced_first_pass dust_nonTarget dust_tokenToSell
          deposit_bootstrap_trade[OF q] Let_def forced_start_def after_bootstrap_def)
       (simp add: dust_balances_def ex_prices_at)
qed

lemma first_pass:
  "rebalancingIteration deposit_env print_two forced_config ex_price_data forced_start =
     Continue after_bootstrap"
proof -
  have p: "pd_prices ex_price_data = ex_prices" by (simp add: ex_price_data_def)
  have c: "calls forced_start = []" "forceFlag forced_start" by (simp_all add: forced_start_def)
  have g: "getPortfolio deposit_env [] = (dust_balances, dust_refresh)"
    using deposit_portfolio(1)[of "[]"] by simp
  show ?thesis
    unfolding rebalancingIteration_def Let_def p
    by (simp add: c g forced_first_pass dust_plan dust_stable dust_nonTarget dust_ne)
       (simp add: deposit_sale forced_first_pass[symmetric])
qed

lemma forced_primary:
  "primaryTargetToken (Config.targetAllocation forced_config) = Some (''USDT'', 1)"
  by (simp add: forced_same ex_primary)

lemma settled_sell_decision:
  "sellDecision print_two (withSubTrade (settled_sell p) 1 1) settled_balances forced_config =
     SellWith settled_context"
  by (simp add: sellDecision_def tokenBalances_def withSubTrade_def TradeParams.extend_def
        settled_sell_def settled_balances_def forced_config_fields truthy_def largestOf_def
        forced_primary subTradeInfo_def Let_def settled_context_def del: not_None_eq)

lemma settled_found:
  "findBalanceForToken settled_balances
     \<lparr>address = ''0xC02aaA39b223FE8D0A0e5C4F27eAD9083C756Cc2'', TokenInfo.chain = ''evm'',
      TokenInfo.specificChain = ''eth'', TokenInfo.symbol = ''WETH''\<rparr> =
   Some (hd (tl settled_balances))"
  by (simp add: findBalanceForToken_def settled_balances_def toLowerCase_def lowerChar_def)

lemma settled_trade:
  "postsOf trace \<noteq> [] \<Longrightarrow>
   executeTrade deposit_env settled_context trace =
     (\<lparr>success = True, status = ''executed''\<rparr>, trace @ [GetBalances, PostTrade settled_payload])"
  by (simp add: executeTrade_def settled_context_def weth_tokens settled_found deposit_env_def
        executedResult_def settled_payload_def Let_def)
     (simp add: settled_balances_def)

lemma settled_sell_run:
  "postsOf trace \<noteq> [] \<Longrightarrow>
   executeSingleTrade deposit_env print_two (withSubTrade (settled_sell p) 1 1) Sell
     settled_balances forced_config (Some ex_price_data) trace =
     (\<lparr>result = Some \<lparr>success = True, status = ''executed''\<rparr>, tradeSuccess = True\<rparr>,
      trace @ [GetBalances, PostTrade settled_payload])"
  by (simp add: executeSingleTrade_def settled_sell_decision settled_trade Let_def)

lemma usdt_token:
  "getTokenInfo ''USDT'' (Some ''eth'') =
     Inr \<lparr>address = ''0xdAC17F958D2ee523a2206206994597C13D831ec7'', TokenInfo.chain = ''evm'',
          TokenInfo.specificChain = ''eth'', TokenInfo.symbol = ''USDT''\<rparr>"
  by (simp add: registry_defs)

lemma settled_stable_value:
  "stableValue (Some ex_price_data) (hd settled_balances) = 1000"
  by (simp add: stableValue_def priceOr1_def ex_price_data_def ex_prices_def settled_balances_def
        normalizedSymbol_def)

lemma settled_buy_decision:
  "buyDecision print_two (withSubTrade settled_buy 1 1) settled_balances forced_config
     (Some ex_price_data) = BuyWith settled_buy_context"
proof -
  have f: "filter (\<lambda>b. BalanceEntry.symbol b \<in> set [''USDC'', ''USDbC'', ''DAI'', ''USDT'']
                           \<and> amount b > 0) settled_balances = [hd settled_balances]"
    by (simp add: settled_balances_def)
  have s: "BalanceEntry.symbol (hd settled_balances) = ''USDT''"
    "BalanceEntry.specificChain (hd settled_balances) = ''eth''"
    by (simp_all add: settled_balances_def)
  show ?thesis
    unfolding buyDecision_def f
    by (simp add: settled_stable_value withSubTrade_def TradeParams.extend_def
          settled_buy_def usdt_token s forced_config_fields subTradeInfo_def Let_def
          settled_buy_context_def)
qed

lemma settled_buy_run:
  "executeSingleTrade deposit_env print_two (withSubTrade settled_buy 1 1) Buy
     settled_balances forced_config (Some ex_price_data) trace =
     (\<lparr>result = Some \<lparr>success = False, status = ''invalid_trade''\<rparr>, tradeSuccess = False\<rparr>,
      trace)"
  by (simp add: executeSingleTrade_def settled_buy_decision executeTrade_def
        settled_buy_context_def createErrorResponse_def Let_def)

lemma settled_split:
  "splitTradeIntoSubTrades (settled_sell p) 1002 MAX_TRADE_SIZE_PERCENT =
     [withSubTrade (settled_sell p) 1 1]"
  "splitTradeIntoSubTrades settled_buy 1002 MAX_TRADE_SIZE_PERCENT =
     [withSubTrade settled_buy 1 1]"
  by (rule split_single, simp add: settled_sell_def settled_buy_def MAX_TRADE_SIZE_PERCENT_def)+

lemma withSubTrade_value:
  "differenceValueUSD (withSubTrade t i n) = differenceValueUSD t"
  by (simp add: withSubTrade_def TradeParams.extend_def)

lemma settled_values:
  "differenceValueUSD (settled_sell p) = 2" "differenceValueUSD settled_buy = 2"
  "action (settled_sell p) = Sell" "action settled_buy = Buy"
  by (simp_all add: settled_sell_def settled_buy_def)

lemma settled_pass:
  assumes "postsOf (calls st) \<noteq> []"
  shows "tradePass deposit_env print_two forced_config ex_price_data settled_balances
           [settled_sell (100 / 501), settled_buy, settled_sell 50] st =
         \<lparr>forceFlag = False,
          allRebalancingResults = allRebalancingResults st @
            [\<lparr>success = True, status = ''executed''\<rparr>,
             \<lparr>success = True, status = ''executed''\<rparr>,
             \<lparr>success = False, status = ''invalid_trade''\<rparr>],
          totalVolumeUSD = totalVolumeUSD st + 2 + 2,
          calls = calls st @
            [GetBalances, PostTrade settled_payload, Delay 3000,
             GetBalances, PostTrade settled_payload, Delay 3000] @
            settled_refresh @ [Delay 3000, Delay 2000]\<rparr>"
proof -
  have p: "pd_prices ex_price_data = ex_prices" by (simp add: ex_price_data_def)
  have q: "postsOf (calls st @ [GetBalances, PostTrade settled_payload, Delay 3000]) \<noteq> []"
    "postsOf (calls st @ [GetBalances, PostTrade settled_payload, Delay 3000,
                          GetBalances, PostTrade settled_payload, Delay 3000]) \<noteq> []"
    by simp_all
  show ?thesis
    unfolding tradePass_def Let_def p settled_total settled_sorted
    by (simp add: maxTradesPerIteration_def settled_values settled_split recordTrade_def
          settled_sell_run[OF assms] settled_sell_run[OF q(1)] deposit_portfolio(2)[OF q(2)]
          settled_buy_run withSubTrade_value SUB_TRADE_DELAY_MS_def)
qed

lemma second_pass:
  "rebalancingIteration deposit_env print_two forced_config ex_price_data after_bootstrap =
     Continue after_trades"
proof -
  define st1 where "st1 = after_bootstrap\<lparr>calls := calls after_bootstrap @ settled_refresh\<rparr>"
  have p: "pd_prices ex_price_data = ex_prices" by (simp add: ex_price_data_def)
  have q: "postsOf (calls after_bootstrap) \<noteq> []"
    by (simp add: after_bootstrap_def dust_refresh_def)
  have q': "postsOf (calls st1) \<noteq> []"
    using q by (simp add: st1_def)
  have f: "forceFlag after_bootstrap" by (simp add: after_bootstrap_def)
  have s: "filter (\<lambda>t. action t = Sell) [settled_sell (100 / 501), settled_buy, settled_sell 50] \<noteq> []"
    by (simp add: settled_values)
  have it: "rebalancingIteration deposit_env print_two forced_config ex_price_data after_bootstrap =
      Continue (tradePass deposit_env print_two forced_config ex_price_data settled_balances
                  [settled_sell (100 / 501), settled_buy, settled_sell 50] st1)"
    unfolding rebalancingIteration_def Let_def p deposit_portfolio(2)[OF q] fst_conv snd_conv
      settled_plan st1_def[symmetric]
    using f s by (simp only: simp_thms if_True if_False list.distinct)
  have "tradePass deposit_env print_two forced_config ex_price_data settled_balances
          [settled_sell (100 / 501), settled_buy, settled_sell 50] st1 = after_trades"
    unfolding settled_pass[OF q']
    by (simp add: st1_def after_bootstrap_def after_trades_def)
  with it show ?thesis by simp
qed

lemma forced_analyze:
  "analyzeAllocationStep dust_balances ex_prices forced_config = Inr forced_analysis"
  by (simp add: analyzeAllocationStep_def dust_group valueLoop_def ex_prices_def forced_config_def
      ex_config_def getOr0_def
      divide_checked_def driftLoop_def targetEntry_def preferredChainOf_def truthy_def firstPreference_def
      CHAIN_PREFERENCES_def liquidationLoop_def liquidationEntry_def orElse_def sortByPriority_def
      forced_analysis_def Let_def)

lemma third_pass:
  "rebalancingIteration deposit_env print_two forced_config ex_price_data after_trades =
     Break final_state"
proof -
  have p: "pd_prices ex_price_data = ex_prices" by (simp add: ex_price_data_def)
  have q: "postsOf (calls after_trades) \<noteq> []"
    by (simp add: after_trades_def dust_refresh_def)
  have f: "\<not> forceFlag after_trades" by (simp add: after_trades_def)
  have d: "snd (iterationDrift forced_config ex_prices settled_balances) \<le> convergenceThreshold"
    by (simp add: settled_drift convergenceThreshold_def)
  show ?thesis
    unfolding rebalancingIteration_def Let_def p deposit_portfolio(2)[OF q] fst_conv snd_conv
    using f d by (simp add: final_state_def)
qed

lemma rebalancingLoop_break:
  assumes "rebalancingIteration env nts config pd st = Break st'" "i < maxIterations"
  shows "rebalancingLoop env nts config pd i st = (i + 1, st')"
  by (subst rebalancingLoop.simps) (simp add: assms)

lemma forced_loop:
  "rebalancingLoop deposit_env print_two forced_config ex_price_data 0 forced_start =
     (3, final_state)"
proof -
  have "rebalancingLoop deposit_env print_two forced_config ex_price_data 0 forced_start =
        rebalancingLoop deposit_env print_two forced_config ex_price_data 1 after_bootstrap"
    using rebalancingLoop_continue(1)[OF first_pass, of 0] by (simp add: maxIterations_def numeral_2_eq_2 numeral_3_eq_3)
  also have "\<dots> = rebalancingLoop deposit_env print_two forced_config ex_price_data 2 after_trades"
    using rebalancingLoop_continue(1)[OF second_pass, of 1] by (simp add: maxIterations_def numeral_2_eq_2 numeral_3_eq_3)
  also have "\<dots> = (3, final_state)"
    using rebalancingLoop_break[OF third_pass, of 2] by (simp add: maxIterations_def numeral_2_eq_2 numeral_3_eq_3)
  finally show ?thesis .
qed

text \<open>
  C7. A run with \<open>forceRebalance\<close> set whose first pass is a bootstrap pass: the pass
  ends at the bootstrap's \<open>continue\<close>, before the statement that clears the flag, so the
  flag is still set in the second pass. There the largest drift, 1/501, is under the
  convergence threshold, and the loop does not stop: it sends two more trades to the
  exchange. It stops in the third pass, on the same portfolio.
\<close>

theorem force_flag_survives_bootstrap:
  "analyzeAllocationStep dust_balances ex_prices forced_config = Inr forced_analysis \<and>
   forceRebalance forced_config \<and>
   rebalancingIteration deposit_env print_two forced_config ex_price_data forced_start =
     Continue after_bootstrap \<and>
   forceFlag after_bootstrap \<and>
   getPortfolio deposit_env (calls after_bootstrap) =
     (settled_balances, calls after_bootstrap @ settled_refresh) \<and>
   snd (iterationDrift forced_config ex_prices settled_balances) = 1 / 501 \<and>
   1 / 501 \<le> convergenceThreshold \<and>
   rebalancingIteration deposit_env print_two forced_config ex_price_data after_bootstrap =
     Continue after_trades \<and>
   postsOf (calls after_trades) = [dust_payload, settled_payload, settled_payload] \<and>
   iterationsCompleted
     (executeRebalancingStep deposit_env print_two forced_analysis forced_config ex_price_data) = 3"
proof -
  have f: "forceRebalance forced_config" by (simp add: forced_config_def)
  have a: "forceFlag after_bootstrap" by (simp add: after_bootstrap_def)
  have q: "postsOf (calls after_bootstrap) \<noteq> []"
    by (simp add: after_bootstrap_def dust_refresh_def)
  have d: "snd (iterationDrift forced_config ex_prices settled_balances) = 1 / 501"
    by (simp add: settled_drift)
  have c: "1 / 501 \<le> convergenceThreshold" by (simp add: convergenceThreshold_def)
  have ps: "postsOf (calls after_trades) = [dust_payload, settled_payload, settled_payload]"
    by (simp add: after_trades_def dust_refresh_def settled_refresh_def)
  have s: "\<lparr>forceFlag = forceRebalance forced_config, allRebalancingResults = [],
            totalVolumeUSD = 0, calls = []\<rparr> = forced_start"
    by (simp add: forced_start_def forced_config_def)
  have n: "iterationsCompleted
     (executeRebalancingStep deposit_env print_two forced_analysis forced_config ex_price_data) = 3"
    unfolding executeRebalancingStep_def Let_def s forced_loop
    by (simp add: forced_analysis_def)
  from forced_analyze f first_pass a deposit_portfolio(2)[OF q] d c second_pass ps n
  show ?thesis by (intro conjI)
qed

end
